theory Spec2Isabelle
  imports Complex_Main
begin

section \<open>Errors\<close>

text \<open>
  Every exception the modelled Python can raise is a value. \<open>NameError\<close> is what a
  reference to a name that the module never binds raises; \<open>Exception msg\<close> is a
  plain \<^verbatim>\<open>raise Exception(msg)\<close>.
\<close>

datatype error = IndexError | KeyError | ValueError | NameError | Exception string

text \<open>
  Sequencing of statements that may raise: the first exception ends the computation.
\<close>

definition ebind :: "error + 'a \<Rightarrow> ('a \<Rightarrow> error + 'b) \<Rightarrow> error + 'b" where
  "ebind m f = (case m of Inl e \<Rightarrow> Inl e | Inr x \<Rightarrow> f x)"

section \<open>The loaded structure (Bio.PDB entities)\<close>

text \<open>
  Coordinates are numpy floats in the source; they are modelled as exact reals, so every
  statement about them is a statement of real arithmetic, without rounding.

  A residue of Bio.PDB has an id \<open>(hetero flag, sequence number, insertion code)\<close>,
  an ordered list of named atoms and a parent chain; a chain has an id and an ordered
  list of residues. The parent pointer is modelled by pairing the residue's own data with
  the chain that holds it, so \<^verbatim>\<open>res.get_parent().get_id()\<close> is
  \<open>chain_id (get_parent res)\<close> and \<^verbatim>\<open>res.get_id()[1]\<close> is \<open>resseq res\<close>.

  Bio.PDB keeps the ids of the residues of a chain distinct, and those of the chains of a
  model, so a residue object is determined by its chain and its id; where the source
  compares residue objects (membership in a list, nodes of a graph) the model compares
  these values.
\<close>

type_synonym vec3 = "real \<times> real \<times> real"

record residue_data =
  res_id :: "string \<times> int \<times> string"
  atoms :: "(string \<times> vec3) list"

record chain =
  chain_id :: string
  child_list :: "residue_data list"

record residue =
  get_parent :: chain
  data :: residue_data

type_synonym model = "chain list"

definition get_id :: "residue \<Rightarrow> string \<times> int \<times> string" where
  "get_id r = res_id (data r)"

definition resseq :: "residue \<Rightarrow> int" where
  "resseq r = fst (snd (get_id r))"

definition residues_of :: "chain \<Rightarrow> residue list" where
  "residues_of c = map (\<lambda>d. \<lparr>get_parent = c, data = d\<rparr>) (child_list c)"

definition get_residues :: "model \<Rightarrow> residue list" where
  "get_residues m = concat (map residues_of m)"

text \<open>\<^verbatim>\<open>residue[name]\<close>: the coordinate of the named atom, KeyError when absent.\<close>

definition atom_coord :: "residue \<Rightarrow> string \<Rightarrow> error + vec3" where
  "atom_coord r name =
     (case map_of (atoms (data r)) name of None \<Rightarrow> Inl KeyError | Some v \<Rightarrow> Inr v)"

text \<open>
  \<^verbatim>\<open>chain[n]\<close> with an integer: Bio.PDB translates the integer to the id
  \<open>(' ', n, ' ')\<close> and looks it up; KeyError when the chain has no such residue.
\<close>

definition chain_getitem :: "chain \<Rightarrow> int \<Rightarrow> error + residue" where
  "chain_getitem c n =
     (case find (\<lambda>d. res_id d = ('' '', n, '' '')) (child_list c) of
        None \<Rightarrow> Inl KeyError
      | Some d \<Rightarrow> Inr \<lparr>get_parent = c, data = d\<rparr>)"

text \<open>\<^verbatim>\<open>model[chain_id]\<close>.\<close>

definition model_getitem :: "model \<Rightarrow> string \<Rightarrow> error + chain" where
  "model_getitem m cid =
     (case find (\<lambda>c. chain_id c = cid) m of None \<Rightarrow> Inl KeyError | Some c \<Rightarrow> Inr c)"

text \<open>\<^verbatim>\<open>flag == 'W' or flag.startswith('H_')\<close>\<close>

definition is_hetero :: "string \<Rightarrow> bool" where
  "is_hetero flag \<longleftrightarrow> flag = ''W'' \<or> take 2 flag = ''H_''"

section \<open>geometry.py: get_nearest_nonbonded_residues\<close>

text \<open>
  The list of CA atoms, each with its parent residue and its coordinate: residues whose
  flag is water or hetero are skipped, and of the others every atom named CA is taken.
\<close>

definition ca_atoms :: "residue \<Rightarrow> (residue \<times> vec3) list" where
  "ca_atoms r = map (\<lambda>a. (r, snd a)) (filter (\<lambda>a. fst a = ''CA'') (atoms (data r)))"

definition get_ca_list :: "model \<Rightarrow> (residue \<times> vec3) list" where
  "get_ca_list m =
     concat (map ca_atoms (filter (\<lambda>r. \<not> is_hetero (fst (get_id r))) (get_residues m)))"

definition sqdist :: "vec3 \<Rightarrow> vec3 \<Rightarrow> real" where
  "sqdist p q =
     (case p of (px, py, pz) \<Rightarrow> case q of (qx, qy, qz) \<Rightarrow>
        (px - qx)\<^sup>2 + (py - qy)\<^sup>2 + (pz - qz)\<^sup>2)"

text \<open>
  \<^verbatim>\<open>kd_tree.query(q, k)\<close> of scipy, by brute force: the indices of the \<open>k\<close> points
  nearest to \<open>q\<close>, nearest first. Where the tree holds fewer than \<open>k\<close> points scipy
  fills the missing places with the number of points, an index one past the end.
  Distances are compared as exact reals. The order among equidistant points is
  implementation-defined in scipy, and in floating point nearly equidistant points may
  come in another order too; here the lower index comes first. The concrete structures
  below have no two candidates at equal distance from a query point.
\<close>

definition kd_query :: "vec3 list \<Rightarrow> vec3 \<Rightarrow> nat \<Rightarrow> nat list" where
  "kd_query pts q k =
     (let n = length pts;
          hits = take k (sort_key (\<lambda>i. sqdist (pts ! i) q) [0..<n])
      in hits @ replicate (k - length hits) n)"

text \<open>
  \<^verbatim>\<open>res1.get_parent().get_id() == res2.get_parent().get_id() and
    (res1.get_id()[1] + 1 == res2.get_id()[1] or res1.get_id()[1] - 1 == res2.get_id()[1])\<close>
\<close>

definition bonded :: "residue \<Rightarrow> residue \<Rightarrow> bool" where
  "bonded res1 res2 \<longleftrightarrow>
     chain_id (get_parent res1) = chain_id (get_parent res2) \<and>
     (resseq res1 + 1 = resseq res2 \<or> resseq res1 - 1 = resseq res2)"

text \<open>
  The inner loop \<^verbatim>\<open>for j in range(1, 4)\<close>. Its body assigns \<open>res2\<close> and then
  tests for a bond; the \<^verbatim>\<open>continue\<close> of the bonded branch is the last statement of
  the body, so both branches go on to the next \<open>j\<close> with \<open>res2\<close> assigned. Indexing
  \<open>ca_list\<close> past its end raises IndexError. The last argument is the current
  binding of the variable \<open>res2\<close>.
\<close>

fun inner_loop ::
  "(residue \<times> vec3) list \<Rightarrow> nat list \<Rightarrow> residue \<Rightarrow> nat list \<Rightarrow> residue option
    \<Rightarrow> error + residue option" where
  "inner_loop ca_list indices res1 [] res2 = Inr res2"
| "inner_loop ca_list indices res1 (j # js) res2 =
     (if indices ! j < length ca_list then
        (let r2 = fst (ca_list ! (indices ! j)) in
         if bonded res1 r2
         then inner_loop ca_list indices res1 js (Some r2)
         else inner_loop ca_list indices res1 js (Some r2))
      else Inl IndexError)"

text \<open>
  The outer loop \<^verbatim>\<open>for i in range(len(ca_list))\<close>: after the inner loop the pair
  \<open>(res1, res2)\<close> is appended, whatever the inner loop found. The inner loop assigns
  \<open>res2\<close> in its first pass or raises, so the binding that \<open>res2\<close> has when it
  starts is never read; it is given as \<open>None\<close>.
\<close>

fun outer_loop ::
  "(residue \<times> vec3) list \<Rightarrow> nat list \<Rightarrow> (residue \<times> residue) list
    \<Rightarrow> error + (residue \<times> residue) list" where
  "outer_loop ca_list [] nearest_nb_list = Inr nearest_nb_list"
| "outer_loop ca_list (i # is) nearest_nb_list =
     (let res1 = fst (ca_list ! i);
          indices = kd_query (map snd ca_list) (snd (ca_list ! i)) 4
      in case inner_loop ca_list indices res1 [1, 2, 3] None of
           Inl e \<Rightarrow> Inl e
         | Inr None \<Rightarrow> Inl NameError
         | Inr (Some res2) \<Rightarrow> outer_loop ca_list is (nearest_nb_list @ [(res1, res2)]))"

text \<open>
  The whole function. scipy refuses to build a tree over no points (the coordinate
  array is not two-dimensional) with a ValueError.
\<close>

definition get_nearest_nonbonded_residues :: "model \<Rightarrow> error + (residue \<times> residue) list" where
  "get_nearest_nonbonded_residues m =
     (let ca_list = get_ca_list m in
      if ca_list = [] then Inl ValueError
      else outer_loop ca_list [0..<length ca_list] [])"

section \<open>geometry.py: frames and Euler angles\<close>

text \<open>Vectors of three reals with numpy's elementwise operations.\<close>

definition vsub :: "vec3 \<Rightarrow> vec3 \<Rightarrow> vec3" where
  "vsub p q = (case p of (px, py, pz) \<Rightarrow> case q of (qx, qy, qz) \<Rightarrow> (px - qx, py - qy, pz - qz))"

definition vdiv :: "vec3 \<Rightarrow> real \<Rightarrow> vec3" where
  "vdiv v s = (case v of (x, y, z) \<Rightarrow> (x / s, y / s, z / s))"

definition dot :: "vec3 \<Rightarrow> vec3 \<Rightarrow> real" where
  "dot p q = (case p of (px, py, pz) \<Rightarrow> case q of (qx, qy, qz) \<Rightarrow> px * qx + py * qy + pz * qz)"

text \<open>\<^verbatim>\<open>np.cross\<close>\<close>

definition cross :: "vec3 \<Rightarrow> vec3 \<Rightarrow> vec3" where
  "cross p q =
     (case p of (px, py, pz) \<Rightarrow> case q of (qx, qy, qz) \<Rightarrow>
        (py * qz - pz * qy, pz * qx - px * qz, px * qy - py * qx))"

text \<open>\<^verbatim>\<open>np.linalg.norm\<close>\<close>

definition linalg_norm :: "vec3 \<Rightarrow> real" where
  "linalg_norm v = sqrt (dot v v)"

definition normalize :: "vec3 \<Rightarrow> vec3" where
  "normalize v = (let norm = linalg_norm v in if norm = 0 then v else vdiv v norm)"

text \<open>
  A 3x3 matrix is the triple of its rows, so \<^verbatim>\<open>m[i][j]\<close> is component \<open>j\<close> of
  row \<open>i\<close>.
\<close>

type_synonym mat3 = "vec3 \<times> vec3 \<times> vec3"

definition row0 :: "mat3 \<Rightarrow> vec3" where "row0 m = fst m"
definition row1 :: "mat3 \<Rightarrow> vec3" where "row1 m = fst (snd m)"
definition row2 :: "mat3 \<Rightarrow> vec3" where "row2 m = snd (snd m)"

definition c0 :: "vec3 \<Rightarrow> real" where "c0 v = fst v"
definition c1 :: "vec3 \<Rightarrow> real" where "c1 v = fst (snd v)"
definition c2 :: "vec3 \<Rightarrow> real" where "c2 v = snd (snd v)"

definition col0 :: "mat3 \<Rightarrow> vec3" where "col0 m = (c0 (row0 m), c0 (row1 m), c0 (row2 m))"
definition col1 :: "mat3 \<Rightarrow> vec3" where "col1 m = (c1 (row0 m), c1 (row1 m), c1 (row2 m))"
definition col2 :: "mat3 \<Rightarrow> vec3" where "col2 m = (c2 (row0 m), c2 (row1 m), c2 (row2 m))"

text \<open>\<^verbatim>\<open>m.T\<close>\<close>

definition transpose3 :: "mat3 \<Rightarrow> mat3" where
  "transpose3 m = (col0 m, col1 m, col2 m)"

text \<open>\<^verbatim>\<open>np.matmul\<close> (and \<^verbatim>\<open>np.dot\<close>) of two 3x3 matrices, and of a matrix and a vector.\<close>

definition matvec :: "mat3 \<Rightarrow> vec3 \<Rightarrow> vec3" where
  "matvec m v = (dot (row0 m) v, dot (row1 m) v, dot (row2 m) v)"

definition matmul :: "mat3 \<Rightarrow> mat3 \<Rightarrow> mat3" where
  "matmul a b =
     ((dot (row0 a) (col0 b), dot (row0 a) (col1 b), dot (row0 a) (col2 b)),
      (dot (row1 a) (col0 b), dot (row1 a) (col1 b), dot (row1 a) (col2 b)),
      (dot (row2 a) (col0 b), dot (row2 a) (col1 b), dot (row2 a) (col2 b)))"

text \<open>
  \<^verbatim>\<open>get_residue_stub_matrix\<close>: the matrix whose rows are \<open>x, y, z\<close>, transposed, and
  the CA coordinate. A missing N, CA or C atom raises KeyError.
\<close>

definition get_residue_stub_matrix :: "residue \<Rightarrow> error + (mat3 \<times> vec3)" where
  "get_residue_stub_matrix r =
     ebind (atom_coord r ''N'') (\<lambda>n.
     ebind (atom_coord r ''CA'') (\<lambda>ca.
     ebind (atom_coord r ''C'') (\<lambda>c.
       (let x = normalize (vsub n ca);
            z = normalize (cross x (vsub c ca));
            y = cross z x
        in Inr (transpose3 (x, y, z), ca)))))"

text \<open>
  \<^verbatim>\<open>np.arctan2(y, x)\<close> on exact reals: the angle in \<open>(-\<pi>, \<pi>]\<close> of the point
  \<open>(x, y)\<close>, and 0 at the origin.
\<close>

definition arctan2 :: "real \<Rightarrow> real \<Rightarrow> real" where
  "arctan2 y x =
     (if 0 < x then arctan (y / x)
      else if x < 0 then (if 0 \<le> y then arctan (y / x) + pi else arctan (y / x) - pi)
      else if 0 < y then pi / 2
      else if y < 0 then - (pi / 2)
      else 0)"

definition rotation_matrix_to_euler_angles :: "mat3 \<Rightarrow> real \<times> real \<times> real" where
  "rotation_matrix_to_euler_angles m =
     (let theta_x = arctan2 (c1 (row2 m)) (c2 (row2 m));
          theta_y = arctan2 (- c0 (row2 m)) (sqrt ((c1 (row2 m))\<^sup>2 + (c2 (row2 m))\<^sup>2));
          theta_z = arctan2 (c0 (row1 m)) (c0 (row0 m))
      in (theta_x, theta_y, theta_z))"

definition euler_angles_to_rotation_matrix :: "real \<Rightarrow> real \<Rightarrow> real \<Rightarrow> mat3" where
  "euler_angles_to_rotation_matrix theta_x theta_y theta_z =
     (let cx = cos theta_x; sx = sin theta_x;
          cy = cos theta_y; sy = sin theta_y;
          cz = cos theta_z; sz = sin theta_z;
          X = ((1, 0, 0), (0, cx, - sx), (0, sx, cx));
          Y = ((cy, 0, sy), (0, 1, 0), (- sy, 0, cy));
          Z = ((cz, - sz, 0), (sz, cz, 0), (0, 0, 1))
      in matmul Z (matmul Y X))"

text \<open>
  What the claims call a rotation matrix: the rows are orthonormal and the determinant
  is 1.
\<close>

definition det3 :: "mat3 \<Rightarrow> real" where
  "det3 m = dot (row0 m) (cross (row1 m) (row2 m))"

definition is_rotation :: "mat3 \<Rightarrow> bool" where
  "is_rotation m \<longleftrightarrow>
     dot (row0 m) (row0 m) = 1 \<and> dot (row1 m) (row1 m) = 1 \<and> dot (row2 m) (row2 m) = 1 \<and>
     dot (row0 m) (row1 m) = 0 \<and> dot (row0 m) (row2 m) = 0 \<and> dot (row1 m) (row2 m) = 0 \<and>
     det3 m = 1"

section \<open>geometry.py and BackboneMicroEnvironmentFeature.py: torsions and the encoder\<close>

text \<open>
  \<^verbatim>\<open>PDB.calc_dihedral\<close> belongs to Bio.PDB and is not part of this program: it is a
  parameter \<open>calc_dihedral\<close> of the functions below, a total function of four points.
\<close>

type_synonym dihedral = "vec3 \<Rightarrow> vec3 \<Rightarrow> vec3 \<Rightarrow> vec3 \<Rightarrow> real"

definition get_phi :: "dihedral \<Rightarrow> chain \<Rightarrow> residue \<Rightarrow> error + real" where
  "get_phi calc_dihedral ch r =
     ebind (chain_getitem ch (resseq r - 1)) (\<lambda>prev_res.
       if is_hetero (fst (get_id prev_res)) then Inl (Exception ''Hetero residue type!'')
       else
         ebind (atom_coord prev_res ''C'') (\<lambda>c_prev.
         ebind (atom_coord r ''N'') (\<lambda>n.
         ebind (atom_coord r ''CA'') (\<lambda>ca.
         ebind (atom_coord r ''C'') (\<lambda>c.
           Inr (calc_dihedral c_prev n ca c))))))"

definition get_psi :: "dihedral \<Rightarrow> chain \<Rightarrow> residue \<Rightarrow> error + real" where
  "get_psi calc_dihedral ch r =
     ebind (chain_getitem ch (resseq r + 1)) (\<lambda>next_res.
       if is_hetero (fst (get_id next_res)) then Inl (Exception ''Hetero residue type!'')
       else
         ebind (atom_coord r ''N'') (\<lambda>n.
         ebind (atom_coord r ''CA'') (\<lambda>ca.
         ebind (atom_coord r ''C'') (\<lambda>c.
         ebind (atom_coord next_res ''N'') (\<lambda>n_next.
           Inr (calc_dihedral n ca c n_next))))))"

record feature_dict =
  phi1 :: real
  psi1 :: real
  phi2 :: real
  psi2 :: real
  shift :: vec3
  theta_x :: real
  theta_y :: real
  theta_z :: real

text \<open>The body of the \<^verbatim>\<open>try\<close> block: the four torsions, or the first exception.\<close>

definition get_torsions ::
  "dihedral \<Rightarrow> residue \<Rightarrow> residue \<Rightarrow> error + (real \<times> real \<times> real \<times> real)" where
  "get_torsions calc_dihedral res1 res2 =
     ebind (get_phi calc_dihedral (get_parent res1) res1) (\<lambda>p1.
     ebind (get_psi calc_dihedral (get_parent res1) res1) (\<lambda>s1.
     ebind (get_phi calc_dihedral (get_parent res2) res2) (\<lambda>p2.
     ebind (get_psi calc_dihedral (get_parent res2) res2) (\<lambda>s2.
       Inr (p1, s1, p2, s2)))))"

text \<open>
  The statements after the \<^verbatim>\<open>try\<close> block, which no handler protects: the stub
  matrices, the shift and the Euler angles of one pair.
\<close>

definition relative_pose ::
  "residue \<Rightarrow> residue \<Rightarrow> real \<times> real \<times> real \<times> real \<Rightarrow> error + feature_dict" where
  "relative_pose res1 res2 t =
     ebind (get_residue_stub_matrix res1) (\<lambda>(s_matrix, origin).
     ebind (atom_coord res2 ''CA'') (\<lambda>ca2.
     ebind (atom_coord res1 ''CA'') (\<lambda>ca1.
     ebind (get_residue_stub_matrix res2) (\<lambda>(s_matrix2, origin2).
       (let shift_global = vsub ca2 ca1;
            sh = matvec (transpose3 s_matrix) shift_global;
            rot_matrix = matmul (transpose3 s_matrix) s_matrix2;
            th = rotation_matrix_to_euler_angles rot_matrix
        in Inr \<lparr>phi1 = fst t, psi1 = fst (snd t), phi2 = fst (snd (snd t)),
                psi2 = snd (snd (snd t)), shift = sh,
                theta_x = fst th, theta_y = fst (snd th), theta_z = snd (snd th)\<rparr>)))))"

text \<open>
  The loop over the pairs of one model: a pair whose \<^verbatim>\<open>try\<close> block raises is left
  (\<^verbatim>\<open>continue\<close>); otherwise its record is appended to \<open>feature_list\<close>.
\<close>

fun extract_pairs ::
  "dihedral \<Rightarrow> (residue \<times> residue) list \<Rightarrow> feature_dict list \<Rightarrow> error + feature_dict list" where
  "extract_pairs calc_dihedral [] feature_list = Inr feature_list"
| "extract_pairs calc_dihedral ((res1, res2) # ps) feature_list =
     (case get_torsions calc_dihedral res1 res2 of
        Inl e \<Rightarrow> extract_pairs calc_dihedral ps feature_list
      | Inr t \<Rightarrow>
          (case relative_pose res1 res2 t of
             Inl e \<Rightarrow> Inl e
           | Inr fd \<Rightarrow> extract_pairs calc_dihedral ps (feature_list @ [fd])))"

text \<open>\<^verbatim>\<open>extract_from_one_file\<close>, from the loaded structure on: one pass per model.\<close>

fun extract_from_structure ::
  "dihedral \<Rightarrow> model list \<Rightarrow> feature_dict list \<Rightarrow> error + feature_dict list" where
  "extract_from_structure calc_dihedral [] feature_list = Inr feature_list"
| "extract_from_structure calc_dihedral (m # ms) feature_list =
     (case get_nearest_nonbonded_residues m of
        Inl e \<Rightarrow> Inl e
      | Inr nearest_nb_list \<Rightarrow>
          (case extract_pairs calc_dihedral nearest_nb_list feature_list of
             Inl e \<Rightarrow> Inl e
           | Inr fl \<Rightarrow> extract_from_structure calc_dihedral ms fl))"

section \<open>Python strings\<close>

text \<open>
  The characters that \<^verbatim>\<open>str.strip()\<close>, \<^verbatim>\<open>str.split()\<close> and \<^verbatim>\<open>int()\<close> treat as
  white space, among the code points below 256.
\<close>

definition is_space :: "char \<Rightarrow> bool" where
  "is_space c \<longleftrightarrow>
     c \<in> set [CHR 0x09, CHR 0x0A, CHR 0x0B, CHR 0x0C, CHR 0x0D, CHR 0x1C, CHR 0x1D,
              CHR 0x1E, CHR 0x1F, CHR 0x20, CHR 0x85, CHR 0xA0]"

definition strip :: "string \<Rightarrow> string" where
  "strip s = rev (dropWhile is_space (rev (dropWhile is_space s)))"

text \<open>\<^verbatim>\<open>s.split()\<close>: the maximal runs of characters that are not white space.\<close>

fun words_acc :: "string \<Rightarrow> string \<Rightarrow> string list" where
  "words_acc cur [] = (if cur = [] then [] else [cur])"
| "words_acc cur (c # cs) =
     (if is_space c then (if cur = [] then words_acc [] cs else cur # words_acc [] cs)
      else words_acc (cur @ [c]) cs)"

definition split_ws :: "string \<Rightarrow> string list" where
  "split_ws s = words_acc [] s"

text \<open>\<^verbatim>\<open>s.split(sep)\<close> for a separator of one character.\<close>

fun split_acc :: "char \<Rightarrow> string \<Rightarrow> string \<Rightarrow> string list" where
  "split_acc sep cur [] = [cur]"
| "split_acc sep cur (c # cs) =
     (if c = sep then cur # split_acc sep [] cs else split_acc sep (cur @ [c]) cs)"

definition split_on :: "char \<Rightarrow> string \<Rightarrow> string list" where
  "split_on sep s = split_acc sep [] s"

text \<open>\<^verbatim>\<open>s[a:b]\<close> for constants \<open>0 \<le> a \<le> b\<close>; a slice never raises.\<close>

definition slice :: "'a list \<Rightarrow> nat \<Rightarrow> nat \<Rightarrow> 'a list" where
  "slice s a b = take (b - a) (drop a s)"

text \<open>\<^verbatim>\<open>xs[i]\<close> for a constant \<open>i \<ge> 0\<close>; on a string the result is a string of length 1.\<close>

definition getitem :: "'a list \<Rightarrow> nat \<Rightarrow> error + 'a" where
  "getitem xs i = (if i < length xs then Inr (xs ! i) else Inl IndexError)"

definition str_at :: "string \<Rightarrow> nat \<Rightarrow> error + string" where
  "str_at s i = ebind (getitem s i) (\<lambda>c. Inr [c])"

text \<open>
  \<^verbatim>\<open>int(s)\<close> on a string: white space around is stripped; then an optional sign and
  decimal digits, where single underscores may stand between digits; anything else raises
  ValueError.
\<close>

definition is_digit :: "char \<Rightarrow> bool" where
  "is_digit c \<longleftrightarrow> c \<in> set ''0123456789''"

definition digit_val :: "char \<Rightarrow> int" where
  "digit_val c = int (of_char c) - 48"

fun int_digits :: "bool \<Rightarrow> int \<Rightarrow> string \<Rightarrow> int option" where
  "int_digits prev acc [] = (if prev then Some acc else None)"
| "int_digits prev acc (c # cs) =
     (if is_digit c then int_digits True (10 * acc + digit_val c) cs
      else if c = CHR ''_'' \<and> prev then int_digits False acc cs
      else None)"

definition py_int :: "string \<Rightarrow> error + int" where
  "py_int s =
     (let t = strip s;
          neg = (t \<noteq> [] \<and> hd t = CHR ''-'');
          body = (if t \<noteq> [] \<and> (hd t = CHR ''-'' \<or> hd t = CHR ''+'') then tl t else t)
      in case int_digits False 0 body of
           None \<Rightarrow> Inl ValueError
         | Some v \<Rightarrow> Inr (if neg then - v else v))"

section \<open>secondary_structures.py: make_dssp_dict\<close>

text \<open>
  One record of the dictionary. The four hydrogen bonds are pairs of a relative sequence
  offset and an energy. The energy is what Python's \<^verbatim>\<open>float()\<close> makes of the text; the
  conversion is a parameter \<open>py_float\<close> of the parser and \<open>'f\<close> is its result type.
\<close>

record 'f dssp_entry =
  seq_num :: int
  ss :: string
  bbl1 :: string
  bbl2 :: string
  bp1 :: int
  bp2 :: int
  bsl :: string
  nh_to_o1 :: "int \<times> 'f"
  o_to_nh1 :: "int \<times> 'f"
  nh_to_o2 :: "int \<times> 'f"
  o_to_nh2 :: "int \<times> 'f"

type_synonym dssp_key = "string \<times> int"
type_synonym 'f dssp_dict = "dssp_key \<rightharpoonup> 'f dssp_entry"
type_synonym key_map = "int \<rightharpoonup> dssp_key"

text \<open>
  The name \<^verbatim>\<open>warnings\<close> is bound nowhere in secondary_structures.py (the module
  imports subprocess, numpy, Bio.PDB, networkx and geometry), so evaluating
  \<^verbatim>\<open>warnings.warn(err)\<close> raises NameError.
\<close>

definition warnings_warn :: "string \<Rightarrow> error + unit" where
  "warnings_warn msg = Inl NameError"

text \<open>The check of the two channels of the tool, before parsing.\<close>

definition report_error :: "string \<Rightarrow> string \<Rightarrow> error + unit" where
  "report_error out err =
     (if strip err \<noteq> [] then
        ebind (warnings_warn err) (\<lambda>_.
          if strip out = [] then Inl (Exception ''DSSP failed to produce an output'')
          else Inr ())
      else Inr ())"

text \<open>
  The header loop: it steps over lines until one whose second word is RESIDUE and
  returns the lines after it (\<^verbatim>\<open>lines[i + 1:]\<close>); running past the last line raises
  IndexError.
\<close>

fun skip_headers :: "string list \<Rightarrow> error + string list" where
  "skip_headers [] = Inl IndexError"
| "skip_headers (l # ls) =
     (if length (split_ws l) < 2 \<or> split_ws l ! 1 \<noteq> ''RESIDUE'' then skip_headers ls
      else Inr ls)"

text \<open>\<^verbatim>\<open>(int(parts[0]), float(parts[1]))\<close>\<close>

definition parse_hbond :: "(string \<Rightarrow> error + 'f) \<Rightarrow> string list \<Rightarrow> error + (int \<times> 'f)" where
  "parse_hbond py_float parts =
     ebind (getitem parts 0) (\<lambda>a.
     ebind (py_int a) (\<lambda>off.
     ebind (getitem parts 1) (\<lambda>b.
     ebind (py_float b) (\<lambda>en.
       Inr (off, en)))))"

text \<open>The fields of one data row, in the order in which the source evaluates them.\<close>

definition parse_row ::
  "(string \<Rightarrow> error + 'f) \<Rightarrow> string \<Rightarrow> error + (dssp_key \<times> 'f dssp_entry)" where
  "parse_row py_float l =
     ebind (py_int (slice l 0 5)) (\<lambda>seq_num'.
     ebind (py_int (slice l 5 10)) (\<lambda>res_id'.
     ebind (str_at l 11) (\<lambda>chain_id'.
     ebind (str_at l 16) (\<lambda>ss'.
     ebind (str_at l 23) (\<lambda>bbl1'.
     ebind (str_at l 24) (\<lambda>bbl2'.
     ebind (py_int (slice l 26 29)) (\<lambda>bp1'.
     ebind (py_int (slice l 30 33)) (\<lambda>bp2'.
     ebind (str_at l 33) (\<lambda>bsl'.
     ebind (parse_hbond py_float (split_on CHR '','' (slice l 39 50))) (\<lambda>h1.
     ebind (parse_hbond py_float (split_on CHR '','' (slice l 50 61))) (\<lambda>h2.
     ebind (parse_hbond py_float (split_on CHR '','' (slice l 61 72))) (\<lambda>h3.
     ebind (parse_hbond py_float (split_on CHR '','' (slice l 72 83))) (\<lambda>h4.
       Inr ((chain_id', res_id'),
            \<lparr>seq_num = seq_num', ss = ss', bbl1 = bbl1', bbl2 = bbl2', bp1 = bp1',
             bp2 = bp2', bsl = bsl', nh_to_o1 = h1, o_to_nh1 = h2, nh_to_o2 = h3,
             o_to_nh2 = h4\<rparr>))))))))))))))"

text \<open>
  The loop over the data lines, with the two dictionaries as state: blank lines and lines
  with a space in column 9 are skipped; a line shorter than 10 characters raises
  IndexError at \<^verbatim>\<open>l[9]\<close>.
\<close>

fun parse_rows ::
  "(string \<Rightarrow> error + 'f) \<Rightarrow> string list \<Rightarrow> 'f dssp_dict \<times> key_map
    \<Rightarrow> error + ('f dssp_dict \<times> key_map)" where
  "parse_rows py_float [] st = Inr st"
| "parse_rows py_float (l # ls) st =
     (if length (strip l) = 0 then parse_rows py_float ls st
      else
        ebind (str_at l 9) (\<lambda>c.
          if c = '' '' then parse_rows py_float ls st
          else
            ebind (parse_row py_float l) (\<lambda>(key, entry).
              parse_rows py_float ls
                ((fst st)(key \<mapsto> entry), (snd st)(seq_num entry \<mapsto> key)))))"

text \<open>The part of the function under \<^verbatim>\<open># Parse the DSSP output\<close>.\<close>

definition parse_output ::
  "(string \<Rightarrow> error + 'f) \<Rightarrow> string \<Rightarrow> error + ('f dssp_dict \<times> key_map)" where
  "parse_output py_float out =
     ebind (skip_headers (split_on CHR 0x0A out)) (\<lambda>rows.
       parse_rows py_float rows (Map.empty, Map.empty))"

text \<open>
  \<^verbatim>\<open>make_dssp_dict\<close> from the point where the tool has run: \<open>out\<close> and \<open>err\<close> are
  the texts of its standard output and standard error.
\<close>

definition make_dssp_dict ::
  "(string \<Rightarrow> error + 'f) \<Rightarrow> string \<Rightarrow> string \<Rightarrow> error + ('f dssp_dict \<times> key_map)" where
  "make_dssp_dict py_float out err =
     ebind (report_error out err) (\<lambda>_. parse_output py_float out)"

text \<open>
  The data rows of an output text, as the loop sees them (the lines after the header
  that are neither blank nor marked as a missing residue), and the sequence number that
  the parser reads from a row.
\<close>

definition is_data_row :: "string \<Rightarrow> bool" where
  "is_data_row l \<longleftrightarrow> strip l \<noteq> [] \<and> str_at l 9 \<noteq> Inr '' ''"

definition data_rows :: "string \<Rightarrow> string list" where
  "data_rows out =
     (case skip_headers (split_on CHR 0x0A out) of
        Inl e \<Rightarrow> []
      | Inr rows \<Rightarrow> filter is_data_row rows)"

definition row_seq_num :: "string \<Rightarrow> error + int" where
  "row_seq_num l = py_int (slice l 0 5)"

text \<open>
  A conversion for the concrete examples: the decimal numbers without exponent, which is
  how the tool writes its energies (an optional sign, digits, an optional point and
  digits), as \<^verbatim>\<open>float()\<close> reads them; other spellings are not covered by it.
\<close>

fun digits_val :: "int \<Rightarrow> string \<Rightarrow> int" where
  "digits_val acc [] = acc"
| "digits_val acc (c # cs) = digits_val (10 * acc + digit_val c) cs"

definition float_of_decimal :: "string \<Rightarrow> error + real" where
  "float_of_decimal s =
     (let t = strip s;
          neg = (t \<noteq> [] \<and> hd t = CHR ''-'');
          body = (if t \<noteq> [] \<and> (hd t = CHR ''-'' \<or> hd t = CHR ''+'') then tl t else t);
          ip = takeWhile is_digit body;
          rest = dropWhile is_digit body;
          fp = (if rest \<noteq> [] \<and> hd rest = CHR ''.'' then tl rest else rest)
      in if (ip = [] \<and> fp = []) \<or> \<not> list_all is_digit fp then Inl ValueError
         else
           (let v = of_int (digits_val 0 ip) + of_int (digits_val 0 fp) / 10 ^ length fp
            in Inr (if neg then - v else v)))"

section \<open>secondary_structures.py: same_ss\<close>

text \<open>
  \<^verbatim>\<open>d.setdefault(k, v)\<close> returns the value stored under \<open>k\<close>; when there is none it
  stores \<open>v\<close> first. The dictionary is state: the call returns the value and the
  dictionary after it.
\<close>

definition setdefault :: "('k \<rightharpoonup> 'v) \<Rightarrow> 'k \<Rightarrow> 'v \<Rightarrow> 'v \<times> ('k \<rightharpoonup> 'v)" where
  "setdefault m k v = (case m k of Some w \<Rightarrow> (w, m) | None \<Rightarrow> (v, m(k \<mapsto> v)))"

text \<open>\<^verbatim>\<open>ss_map = {'H':'H', 'B':'B', 'E':'E', 'G':'G', 'I':'I', 'T':'T'}\<close>\<close>

definition ss_map_init :: "string \<rightharpoonup> string" where
  "ss_map_init =
     [''H'' \<mapsto> ''H'', ''B'' \<mapsto> ''B'', ''E'' \<mapsto> ''E'', ''G'' \<mapsto> ''G'', ''I'' \<mapsto> ''I'',
      ''T'' \<mapsto> ''T'']"

text \<open>\<^verbatim>\<open>d[key]\<close> on a dictionary: KeyError when the key is absent.\<close>

definition dict_getitem :: "('k \<rightharpoonup> 'v) \<Rightarrow> 'k \<Rightarrow> error + 'v" where
  "dict_getitem m k = (case m k of None \<Rightarrow> Inl KeyError | Some v \<Rightarrow> Inr v)"

text \<open>
  \<^verbatim>\<open>same_ss\<close>, with the dictionary \<open>ss_map\<close> of the enclosing function as state. The
  two classes are looked up (and stored) first; the sheet labels are compared only when
  the classes are equal, and they are compared whatever the class is.
\<close>

definition same_ss ::
  "(string \<rightharpoonup> string) \<Rightarrow> 'f dssp_dict \<Rightarrow> dssp_key \<Rightarrow> dssp_key
    \<Rightarrow> error + (bool \<times> (string \<rightharpoonup> string))" where
  "same_ss ss_map dssp_dict key1 key2 =
     ebind (dict_getitem dssp_dict key1) (\<lambda>d1.
       (let r1 = setdefault ss_map (ss d1) '' '' in
        ebind (dict_getitem dssp_dict key2) (\<lambda>d2.
          (let r2 = setdefault (snd r1) (ss d2) '' '' in
           if fst r1 = fst r2
           then ebind (dict_getitem dssp_dict key1) (\<lambda>e1.
                ebind (dict_getitem dssp_dict key2) (\<lambda>e2.
                  Inr (bsl e1 = bsl e2, snd r2)))
           else Inr (False, snd r2)))))"

text \<open>
  The class that the claims speak of: what the table holds for a symbol when
  \<^verbatim>\<open>pack_dssp_dict_into_ss_list\<close> starts, and the blank for every other symbol.
\<close>

definition mapped_class :: "string \<Rightarrow> string" where
  "mapped_class symbol = fst (setdefault ss_map_init symbol '' '')"

text \<open>
  The states that the table can be in: every symbol either holds its class, or is absent
  and has the blank as its class.
\<close>

definition ss_map_ok :: "(string \<rightharpoonup> string) \<Rightarrow> bool" where
  "ss_map_ok m \<longleftrightarrow> (\<forall>k. m k = Some (mapped_class k) \<or> (m k = None \<and> mapped_class k = '' ''))"

section \<open>secondary_structures.py: segments and the sheet graph\<close>

record beta_strand =
  residue_list :: "residue list"
  sheet_id :: string

datatype secondary_structure =
    AlphaHelix "residue list"
  | BetaStrand beta_strand
  | Loop "residue list" string

text \<open>
  The \<^verbatim>\<open>nx.MultiDiGraph\<close>: its nodes in the order of insertion, and its edges with
  their \<open>edge_type\<close>, parallel edges kept. \<^verbatim>\<open>add_edge(u, v)\<close> puts each end among the
  nodes unless it is there already; the program adds nodes in no other way.
\<close>

record graph =
  nodes :: "residue list"
  edges :: "(residue \<times> residue \<times> string) list"

definition empty_graph :: graph where
  "empty_graph = \<lparr>nodes = [], edges = []\<rparr>"

definition add_node :: "residue list \<Rightarrow> residue \<Rightarrow> residue list" where
  "add_node ns n = (if n \<in> set ns then ns else ns @ [n])"

definition add_edge :: "graph \<Rightarrow> residue \<Rightarrow> residue \<Rightarrow> string \<Rightarrow> graph" where
  "add_edge g u v edge_type =
     \<lparr>nodes = add_node (add_node (nodes g) u) v, edges = edges g @ [(u, v, edge_type)]\<rparr>"

text \<open>
  \<^verbatim>\<open>for i in range(len(rl) - 1): add_edge(rl[i], rl[i + 1], edge_type='pp_bond')\<close>
\<close>

fun add_pp_bonds :: "residue list \<Rightarrow> graph \<Rightarrow> graph" where
  "add_pp_bonds (a # b # rs) g = add_pp_bonds (b # rs) (add_edge g a b ''pp_bond'')"
| "add_pp_bonds rs g = g"

fun add_strands :: "beta_strand list \<Rightarrow> graph \<Rightarrow> graph" where
  "add_strands [] g = g"
| "add_strands (strand # strands) g = add_strands strands (add_pp_bonds (residue_list strand) g)"

definition HB_ENERGY_LIMIT :: real where
  "HB_ENERGY_LIMIT = - 1.5"

text \<open>\<^verbatim>\<open>key = key_map[n]; res2 = model[key[0]][key[1]]\<close>\<close>

definition resolve_partner :: "key_map \<Rightarrow> model \<Rightarrow> int \<Rightarrow> error + residue" where
  "resolve_partner key_map m n =
     ebind (dict_getitem key_map n) (\<lambda>key.
     ebind (model_getitem m (fst key)) (\<lambda>c.
       chain_getitem c (snd key)))"

text \<open>One of the four \<^verbatim>\<open>if\<close> blocks of a residue, for the descriptor \<open>hb\<close>.\<close>

definition add_hbond ::
  "key_map \<Rightarrow> model \<Rightarrow> residue list \<Rightarrow> residue \<Rightarrow> int \<Rightarrow> int \<times> real \<Rightarrow> string \<Rightarrow> graph
    \<Rightarrow> error + graph" where
  "add_hbond key_map m residues res sn hb edge_type g =
     (if snd hb < HB_ENERGY_LIMIT then
        ebind (resolve_partner key_map m (sn + fst hb)) (\<lambda>res2.
          Inr (if res2 \<in> set residues then add_edge g res res2 edge_type else g))
      else Inr g)"

text \<open>The body of \<^verbatim>\<open>for res in residues\<close>.\<close>

definition add_hbonds_of ::
  "real dssp_dict \<Rightarrow> key_map \<Rightarrow> model \<Rightarrow> residue list \<Rightarrow> residue \<Rightarrow> graph \<Rightarrow> error + graph" where
  "add_hbonds_of dssp_dict key_map m residues res g =
     ebind (dict_getitem dssp_dict (chain_id (get_parent res), resseq res)) (\<lambda>d.
     ebind (add_hbond key_map m residues res (seq_num d) (nh_to_o1 d) ''nh_to_o1'' g) (\<lambda>g1.
     ebind (add_hbond key_map m residues res (seq_num d) (o_to_nh1 d) ''o_to_nh1'' g1) (\<lambda>g2.
     ebind (add_hbond key_map m residues res (seq_num d) (nh_to_o2 d) ''nh_to_o2'' g2) (\<lambda>g3.
       add_hbond key_map m residues res (seq_num d) (o_to_nh2 d) ''o_to_nh2'' g3))))"

fun hbond_loop ::
  "real dssp_dict \<Rightarrow> key_map \<Rightarrow> model \<Rightarrow> residue list \<Rightarrow> residue list \<Rightarrow> graph
    \<Rightarrow> error + graph" where
  "hbond_loop dssp_dict key_map m residues [] g = Inr g"
| "hbond_loop dssp_dict key_map m residues (res # rs) g =
     ebind (add_hbonds_of dssp_dict key_map m residues res g)
       (hbond_loop dssp_dict key_map m residues rs)"

text \<open>
  \<^verbatim>\<open>residues = [res for strand in self.strand_list for res in strand.residue_list]\<close>
\<close>

definition strand_residues :: "beta_strand list \<Rightarrow> residue list" where
  "strand_residues strand_list = concat (map residue_list strand_list)"

definition init_sheet_graph ::
  "beta_strand list \<Rightarrow> real dssp_dict \<Rightarrow> key_map \<Rightarrow> model \<Rightarrow> error + graph" where
  "init_sheet_graph strand_list dssp_dict key_map m =
     (let g = add_strands strand_list empty_graph;
          residues = strand_residues strand_list
      in hbond_loop dssp_dict key_map m residues residues g)"

text \<open>
  The second half of \<^verbatim>\<open>pack_dssp_dict_into_ss_list\<close>: one sheet for each sheet label
  among the strands of \<open>ss_list\<close>, built from the strands that carry the label. The
  source iterates over a Python set, whose order is not fixed; here the labels come in
  the order that \<open>remdups\<close> gives them, each at the place of its last strand. Nothing
  but the order of the sheets in the list depends on that choice.
\<close>

record beta_sheet =
  sheet_label :: string
  strand_list :: "beta_strand list"
  sheet_graph :: graph

fun strands_in :: "secondary_structure list \<Rightarrow> beta_strand list" where
  "strands_in [] = []"
| "strands_in (BetaStrand b # xs) = b # strands_in xs"
| "strands_in (x # xs) = strands_in xs"

definition sheet_id_set :: "secondary_structure list \<Rightarrow> string list" where
  "sheet_id_set ss_list = remdups (map sheet_id (strands_in ss_list))"

definition BetaSheet ::
  "string \<Rightarrow> beta_strand list \<Rightarrow> real dssp_dict \<Rightarrow> key_map \<Rightarrow> model \<Rightarrow> error + beta_sheet" where
  "BetaSheet sid strands dssp_dict key_map m =
     ebind (init_sheet_graph strands dssp_dict key_map m) (\<lambda>g.
       Inr \<lparr>sheet_label = sid, strand_list = strands, sheet_graph = g\<rparr>)"

fun build_sheets ::
  "string list \<Rightarrow> secondary_structure list \<Rightarrow> real dssp_dict \<Rightarrow> key_map \<Rightarrow> model
    \<Rightarrow> error + beta_sheet list" where
  "build_sheets [] ss_list dssp_dict key_map m = Inr []"
| "build_sheets (sid # sids) ss_list dssp_dict key_map m =
     ebind (BetaSheet sid (filter (\<lambda>b. sheet_id b = sid) (strands_in ss_list))
              dssp_dict key_map m) (\<lambda>sheet.
     ebind (build_sheets sids ss_list dssp_dict key_map m) (\<lambda>sheets.
       Inr (sheet # sheets)))"

definition sheet_list_of ::
  "secondary_structure list \<Rightarrow> real dssp_dict \<Rightarrow> key_map \<Rightarrow> model \<Rightarrow> error + beta_sheet list" where
  "sheet_list_of ss_list dssp_dict key_map m =
     build_sheets (sheet_id_set ss_list) ss_list dssp_dict key_map m"

section \<open>secondary_structures.py: the segment loop\<close>

text \<open>
  The inner \<^verbatim>\<open>while\<close> loop of \<^verbatim>\<open>pack_dssp_dict_into_ss_list\<close>: from the residue
  after the start residue on, it steps over the residues that \<open>same_ss\<close> holds of
  together with the start residue, and stops at the first other one or at the end of the
  chain. It returns the residues stepped over, the residues left, and the table.
\<close>

fun scan_run ::
  "(string \<rightharpoonup> string) \<Rightarrow> real dssp_dict \<Rightarrow> string \<Rightarrow> int \<Rightarrow> residue list
    \<Rightarrow> error + (residue list \<times> residue list \<times> (string \<rightharpoonup> string))" where
  "scan_run ss_map dssp_dict c_id start_r_id [] = Inr ([], [], ss_map)"
| "scan_run ss_map dssp_dict c_id start_r_id (r # rs) =
     (case same_ss ss_map dssp_dict (c_id, start_r_id) (c_id, resseq r) of
        Inl e \<Rightarrow> Inl e
      | Inr (same, ss_map1) \<Rightarrow>
          (if \<not> same then Inr ([], r # rs, ss_map1)
           else
             (case scan_run ss_map1 dssp_dict c_id start_r_id rs of
                Inl e \<Rightarrow> Inl e
              | Inr (run, rest, ss_map2) \<Rightarrow> Inr (r # run, rest, ss_map2))))"

text \<open>
  The segment made of a run: a helix for the symbol H, a strand with the sheet label of
  the start residue for E and B, and otherwise a loop with the class that the table
  gives (and stores) for the symbol.
\<close>

definition make_segment ::
  "(string \<rightharpoonup> string) \<Rightarrow> real dssp_entry \<Rightarrow> residue list
    \<Rightarrow> secondary_structure \<times> (string \<rightharpoonup> string)" where
  "make_segment ss_map d ss_residue_list =
     (let start_ss = ss d in
      if ''H'' = start_ss then (AlphaHelix ss_residue_list, ss_map)
      else if ''E'' = start_ss \<or> ''B'' = start_ss
      then (BetaStrand \<lparr>residue_list = ss_residue_list, sheet_id = bsl d\<rparr>, ss_map)
      else (let r = setdefault ss_map start_ss '' '' in (Loop ss_residue_list (fst r), snd r)))"

text \<open>
  The outer \<^verbatim>\<open>while\<close> loop over the residues of one chain. The run that the inner
  loop leaves is never longer than what it was given, which is why the loop ends.
\<close>

lemma scan_run_length:
  "scan_run sm dd c s rs = Inr (run, rest, sm') \<Longrightarrow> length rest \<le> length rs"
proof (induction rs arbitrary: sm run rest sm')
  case Nil
  then show ?case by simp
next
  case (Cons r rs)
  then show ?case
    by (fastforce split: sum.splits prod.splits if_splits)
qed

function segment_loop ::
  "(string \<rightharpoonup> string) \<Rightarrow> real dssp_dict \<Rightarrow> string \<Rightarrow> residue list
    \<Rightarrow> error + (secondary_structure list \<times> (string \<rightharpoonup> string))" where
  "segment_loop ss_map dssp_dict c_id [] = Inr ([], ss_map)"
| "segment_loop ss_map dssp_dict c_id (r # rs) =
     (case dict_getitem dssp_dict (c_id, resseq r) of
        Inl e \<Rightarrow> Inl e
      | Inr d \<Rightarrow>
          (case scan_run ss_map dssp_dict c_id (resseq r) rs of
             Inl e \<Rightarrow> Inl e
           | Inr (run, rest, ss_map1) \<Rightarrow>
               (case segment_loop (snd (make_segment ss_map1 d (r # run))) dssp_dict c_id rest of
                  Inl e \<Rightarrow> Inl e
                | Inr (segments, ss_map2) \<Rightarrow>
                    Inr (fst (make_segment ss_map1 d (r # run)) # segments, ss_map2))))"
  by pat_completeness auto
termination
proof (relation "measure (\<lambda>(ss_map, dssp_dict, c_id, rs). length rs)")
  show "wf (measure (\<lambda>(ss_map, dssp_dict, c_id, rs). length rs))" by simp
next
  fix ss_map :: "string \<rightharpoonup> string" and dssp_dict :: "real dssp_dict" and c_id r rs d x run y rest ss_map1
  assume "scan_run ss_map dssp_dict c_id (resseq r) rs = Inr x" "(run, y) = x" "(rest, ss_map1) = y"
  then have "scan_run ss_map dssp_dict c_id (resseq r) rs = Inr (run, rest, ss_map1)" by simp
  then have "length rest \<le> length rs" by (rule scan_run_length)
  then show "((snd (make_segment ss_map1 d (r # run)), dssp_dict, c_id, rest), ss_map, dssp_dict, c_id, r # rs)
      \<in> measure (\<lambda>(ss_map, dssp_dict, c_id, rs). length rs)" by simp
qed

text \<open>\<^verbatim>\<open>for chain in model\<close>, and the whole function.\<close>

fun pack_chains ::
  "(string \<rightharpoonup> string) \<Rightarrow> real dssp_dict \<Rightarrow> chain list
    \<Rightarrow> error + (secondary_structure list \<times> (string \<rightharpoonup> string))" where
  "pack_chains ss_map dssp_dict [] = Inr ([], ss_map)"
| "pack_chains ss_map dssp_dict (c # cs) =
     ebind (segment_loop ss_map dssp_dict (chain_id c) (residues_of c)) (\<lambda>r1.
     ebind (pack_chains (snd r1) dssp_dict cs) (\<lambda>r2.
       Inr (fst r1 @ fst r2, snd r2)))"

definition pack_dssp_dict_into_ss_list ::
  "model \<Rightarrow> real dssp_dict \<Rightarrow> key_map \<Rightarrow> error + (secondary_structure list \<times> beta_sheet list)" where
  "pack_dssp_dict_into_ss_list m dssp_dict key_map =
     ebind (pack_chains ss_map_init dssp_dict m) (\<lambda>r.
     ebind (sheet_list_of (fst r) dssp_dict key_map m) (\<lambda>sheet_list.
       Inr (fst r, sheet_list)))"

text \<open>The residues of a segment.\<close>

fun segment_residues :: "secondary_structure \<Rightarrow> residue list" where
  "segment_residues (AlphaHelix rs) = rs"
| "segment_residues (BetaStrand b) = residue_list b"
| "segment_residues (Loop rs t) = rs"

section \<open>The finder as the specification words it\<close>

text \<open>
  The specification's reading of the finder, for comparison with the code: of the three
  candidates after the query point itself, in the order of the query, those that are not
  bonded to the query residue are accepted; the last accepted one is kept, and a query
  residue with no accepted candidate gives no pair.
\<close>

definition candidates :: "(residue \<times> vec3) list \<Rightarrow> nat \<Rightarrow> residue list" where
  "candidates ca_list i =
     map (\<lambda>j. fst (ca_list ! (kd_query (map snd ca_list) (snd (ca_list ! i)) 4 ! j))) [1, 2, 3]"

definition spec_pairs_of :: "(residue \<times> vec3) list \<Rightarrow> nat \<Rightarrow> (residue \<times> residue) list" where
  "spec_pairs_of ca_list i =
     (let res1 = fst (ca_list ! i);
          accepted = filter (\<lambda>c. \<not> bonded res1 c) (candidates ca_list i)
      in if accepted = [] then [] else [(res1, last accepted)])"

definition spec_nearest_nonbonded :: "model \<Rightarrow> (residue \<times> residue) list" where
  "spec_nearest_nonbonded m =
     concat (map (spec_pairs_of (get_ca_list m)) [0..<length (get_ca_list m)])"

section \<open>Concrete structures\<close>

text \<open>
  A residue with the three backbone atoms, its CA at \<open>p\<close>, N one unit along y from it
  and C one unit along z.
\<close>

definition backbone_res :: "int \<Rightarrow> vec3 \<Rightarrow> residue_data" where
  "backbone_res n p =
     \<lparr>res_id = ('' '', n, '' ''),
      atoms = [(''N'', (fst p, fst (snd p) + 1, snd (snd p))), (''CA'', p),
               (''C'', (fst p, fst (snd p), snd (snd p) + 1))]\<rparr>"

text \<open>
  A single chain of four residues, numbered 1 to 4 in order along the x axis, at
  \<open>x = 0, 1, 3, 10\<close>.
\<close>

definition line_chain :: chain where
  "line_chain =
     \<lparr>chain_id = ''A'',
      child_list = [backbone_res 1 (0, 0, 0), backbone_res 2 (1, 0, 0),
                    backbone_res 3 (3, 0, 0), backbone_res 4 (10, 0, 0)]\<rparr>"

text \<open>
  Two chains: residues 1, 2, 3 of chain A at \<open>x = 0, 1, 4\<close>, and residue 7 of chain B
  two units beside residue 2.
\<close>

definition two_chain_model :: model where
  "two_chain_model =
     [\<lparr>chain_id = ''A'',
       child_list = [backbone_res 1 (0, 0, 0), backbone_res 2 (1, 0, 0),
                     backbone_res 3 (4, 0, 0)]\<rparr>,
      \<lparr>chain_id = ''B'', child_list = [backbone_res 7 (1, 2, 0)]\<rparr>]"

text \<open>
  A stand-in for the dihedral of four points, used with the concrete structures: the
  difference of the x coordinates of the last and the first point. And the record of a
  pair of residues of \<open>line_chain\<close>, whose frames are parallel and whose CA atoms
  lie along the x axis, the third axis of the frames.
\<close>

definition x_gap :: dihedral where
  "x_gap a b c d = fst d - fst a"

definition line_record :: "real \<Rightarrow> real \<Rightarrow> real \<Rightarrow> real \<Rightarrow> real \<Rightarrow> feature_dict" where
  "line_record p1 s1 p2 s2 dz =
     \<lparr>phi1 = p1, psi1 = s1, phi2 = p2, psi2 = s2, shift = (0, 0, dz),
      theta_x = 0, theta_y = 0, theta_z = 0\<rparr>"

text \<open>A chain of two residues, for the segment loop.\<close>

definition helix_chain :: chain where
  "helix_chain =
     \<lparr>chain_id = ''A'', child_list = [backbone_res 1 (0, 0, 0), backbone_res 2 (4, 0, 0)]\<rparr>"

definition helix_res :: "nat \<Rightarrow> residue" where
  "helix_res i = residues_of helix_chain ! i"

text \<open>The residues of \<open>line_chain\<close>, by position.\<close>

definition line_residue :: "nat \<Rightarrow> residue" where
  "line_residue i = residues_of line_chain ! i"

section \<open>When the geometry of a pair is unavailable\<close>

text \<open>
  A residue has no usable neighbour at sequence number \<open>n\<close> when every residue of its
  chain with that number is water or hetero; that includes the case that the chain has
  no residue with that number. The geometry of a pair is unavailable when one of its two
  residues lacks a usable neighbour before or after it.
\<close>

definition no_usable_neighbour :: "residue \<Rightarrow> int \<Rightarrow> bool" where
  "no_usable_neighbour r n \<longleftrightarrow>
     (\<forall>d \<in> set (child_list (get_parent r)).
        fst (snd (res_id d)) = n \<longrightarrow> is_hetero (fst (res_id d)))"

definition geometry_unavailable :: "residue \<Rightarrow> residue \<Rightarrow> bool" where
  "geometry_unavailable res1 res2 \<longleftrightarrow>
     no_usable_neighbour res1 (resseq res1 - 1) \<or> no_usable_neighbour res1 (resseq res1 + 1) \<or>
     no_usable_neighbour res2 (resseq res2 - 1) \<or> no_usable_neighbour res2 (resseq res2 + 1)"

section \<open>The claims' own notions\<close>

text \<open>
  The segment test as the specification words it: the mapped classes are equal, and the
  sheet labels have to agree only for residues of a strand class (\<open>E\<close> or \<open>B\<close>, the
  symbols that the segment builder turns into strands).
\<close>

definition strand_class :: "string \<Rightarrow> bool" where
  "strand_class c \<longleftrightarrow> c = ''E'' \<or> c = ''B''"

definition spec_same_ss :: "'f dssp_entry \<Rightarrow> 'f dssp_entry \<Rightarrow> bool" where
  "spec_same_ss d1 d2 \<longleftrightarrow>
     mapped_class (ss d1) = mapped_class (ss d2) \<and>
     (if strand_class (mapped_class (ss d1)) then bsl d1 = bsl d2 else True)"

text \<open>
  The specification's condition for the parser to raise: the tool wrote diagnostic text
  and no output text.
\<close>

definition spec_fatal :: "string \<Rightarrow> string \<Rightarrow> bool" where
  "spec_fatal out err \<longleftrightarrow> err \<noteq> [] \<and> out = []"

text \<open>The four hydrogen-bond descriptors of a record, each with the type of its edge.\<close>

definition hb_kinds :: "real dssp_entry \<Rightarrow> (string \<times> (int \<times> real)) list" where
  "hb_kinds d =
     [(''nh_to_o1'', nh_to_o1 d), (''o_to_nh1'', o_to_nh1 d), (''nh_to_o2'', nh_to_o2 d),
      (''o_to_nh2'', o_to_nh2 d)]"


text \<open>
  The function as the specification words it: the check of the two channels raises only
  when there is diagnostic text and no output text; in every other case the output is
  parsed, diagnostic text or not.
\<close>

definition spec_make_dssp_dict ::
  "(string \<Rightarrow> error + 'f) \<Rightarrow> string \<Rightarrow> string \<Rightarrow> error + ('f dssp_dict \<times> key_map)" where
  "spec_make_dssp_dict py_float out err =
     (if spec_fatal out err then Inl (Exception ''DSSP failed to produce an output'')
      else parse_output py_float out)"

text \<open>
  What the encoder is to emit for a pair: nothing when one of the four torsions cannot
  be computed; otherwise one record with the four torsions, the displacement of the two
  CA atoms in the frame of the first residue, and the Euler angles of the rotation that
  takes the frame of the first residue to that of the second.
\<close>

definition pair_records :: "dihedral \<Rightarrow> residue \<times> residue \<Rightarrow> feature_dict list" where
  "pair_records calc_dihedral p =
     (case get_torsions calc_dihedral (fst p) (snd p) of
        Inl e \<Rightarrow> []
      | Inr t \<Rightarrow>
          (case get_residue_stub_matrix (fst p) of
             Inl e \<Rightarrow> []
           | Inr s1 \<Rightarrow>
               (case get_residue_stub_matrix (snd p) of
                  Inl e \<Rightarrow> []
                | Inr s2 \<Rightarrow>
                    (let th = rotation_matrix_to_euler_angles
                                (matmul (transpose3 (fst s1)) (fst s2))
                     in [\<lparr>phi1 = fst t, psi1 = fst (snd t), phi2 = fst (snd (snd t)),
                          psi2 = snd (snd (snd t)),
                          shift = matvec (transpose3 (fst s1)) (vsub (snd s2) (snd s1)),
                          theta_x = fst th, theta_y = fst (snd th),
                          theta_z = snd (snd th)\<rparr>]))))"

section \<open>Notions used in the proofs\<close>

text \<open>
  The edges that one descriptor \<open>hb\<close> of the residue \<open>res\<close> contributes, and the
  invariant that the nodes of a graph are the ends of its edges.
\<close>

definition hb_edges ::
  "key_map \<Rightarrow> model \<Rightarrow> residue list \<Rightarrow> residue \<Rightarrow> int \<Rightarrow> int \<times> real \<Rightarrow> string
    \<Rightarrow> (residue \<times> residue \<times> string) set" where
  "hb_edges km m rs res sn hb k =
     {(res, res2, k) | res2. snd hb < - 1.5 \<and> resolve_partner km m (sn + fst hb) = Inr res2 \<and>
        res2 \<in> set rs}"


section \<open>A concrete assignment text and sheet\<close>

text \<open>
  A synthetic output of the assignment tool for a hairpin of five residues of chain A:
  two strands of two residues with sheet label A, a turn between them, and a row marking
  a chain break. Residue 1 has a bond of energy -2.0 to the residue four places on and
  one of energy exactly -1.5; residue 2 has a bond to the turn residue; residue 5 has a
  bond of energy -1.51 to the residue four places back.
\<close>

definition dssp_header :: string where
  "dssp_header = ''  #  RESIDUE AA STRUCTURE BP1 BP2  ACC     N-H-->O    O-->H-N    N-H-->O    O-->H-N''"

definition dssp_row1 :: string where
  "dssp_row1 = ''    1    1 A M  E      A    5   0A  64      4,-2.0     4,-1.5     0, 0.0     0, 0.0''"

definition dssp_row2 :: string where
  "dssp_row2 = ''    2    2 A K  E      A    4   0A  70      1,-3.0     0, 0.0     0, 0.0     0, 0.0''"

definition dssp_row3 :: string where
  "dssp_row3 = ''    3    3 A G  T           0   0   90      0, 0.0     0, 0.0     0, 0.0     0, 0.0''"

definition dssp_row4 :: string where
  "dssp_row4 = ''    4    4 A V  E      A    2   0A  51      0, 0.0     0, 0.0     0, 0.0     0, 0.0''"

definition dssp_row5 :: string where
  "dssp_row5 = ''    5    5 A L  E      A    1   0A  48    -4,-1.51     0, 0.0     0, 0.0     0, 0.0''"

definition dssp_break :: string where
  "dssp_break = ''    6        !              0   0    0      0, 0.0     0, 0.0     0, 0.0     0, 0.0''"

definition hairpin_lines :: "string list" where
  "hairpin_lines = [dssp_header, dssp_row1, dssp_row2, dssp_row3, dssp_row4, dssp_row5, dssp_break]"

definition hairpin_text :: string where
  "hairpin_text = concat (map (\<lambda>l. l @ [CHR 0x0A]) hairpin_lines)"

text \<open>The records and the index that the text stands for.\<close>

definition strand_entry :: "int \<Rightarrow> int \<Rightarrow> int \<times> real \<Rightarrow> int \<times> real \<Rightarrow> real dssp_entry" where
  "strand_entry n partner h1 h2 =
     \<lparr>seq_num = n, ss = ''E'', bbl1 = ''A'', bbl2 = '' '', bp1 = partner, bp2 = 0, bsl = ''A'',
      nh_to_o1 = h1, o_to_nh1 = h2, nh_to_o2 = (0, 0), o_to_nh2 = (0, 0)\<rparr>"

definition turn_entry :: "int \<Rightarrow> real dssp_entry" where
  "turn_entry n =
     \<lparr>seq_num = n, ss = ''T'', bbl1 = '' '', bbl2 = '' '', bp1 = 0, bp2 = 0, bsl = '' '',
      nh_to_o1 = (0, 0), o_to_nh1 = (0, 0), nh_to_o2 = (0, 0), o_to_nh2 = (0, 0)\<rparr>"

definition hairpin_dssp :: "real dssp_dict" where
  "hairpin_dssp =
     [(''A'', 1) \<mapsto> strand_entry 1 5 (4, - 2) (4, - 1.5),
      (''A'', 2) \<mapsto> strand_entry 2 4 (1, - 3) (0, 0),
      (''A'', 3) \<mapsto> turn_entry 3,
      (''A'', 4) \<mapsto> strand_entry 4 2 (0, 0) (0, 0),
      (''A'', 5) \<mapsto> strand_entry 5 1 (- 4, - 1.51) (0, 0)]"

definition hairpin_key_map :: key_map where
  "hairpin_key_map =
     [1 \<mapsto> (''A'', 1), 2 \<mapsto> (''A'', 2), 3 \<mapsto> (''A'', 3), 4 \<mapsto> (''A'', 4), 5 \<mapsto> (''A'', 5)]"

text \<open>The chain of the hairpin, its residues by position, its segments and its sheet.\<close>

definition sheet_chain :: chain where
  "sheet_chain =
     \<lparr>chain_id = ''A'',
      child_list = [backbone_res 1 (0, 0, 0), backbone_res 2 (3, 0, 0), backbone_res 3 (5, 2, 0),
                    backbone_res 4 (3, 4, 0), backbone_res 5 (0, 4, 0)]\<rparr>"

definition sheet_res :: "nat \<Rightarrow> residue" where
  "sheet_res i = residues_of sheet_chain ! i"

definition strand_a :: beta_strand where
  "strand_a = \<lparr>residue_list = [sheet_res 0, sheet_res 1], sheet_id = ''A''\<rparr>"

definition strand_b :: beta_strand where
  "strand_b = \<lparr>residue_list = [sheet_res 3, sheet_res 4], sheet_id = ''A''\<rparr>"

definition hairpin_ss_list :: "secondary_structure list" where
  "hairpin_ss_list = [BetaStrand strand_a, Loop [sheet_res 2] ''T'', BetaStrand strand_b]"

definition hairpin_graph :: graph where
  "hairpin_graph =
     \<lparr>nodes = [sheet_res 0, sheet_res 1, sheet_res 3, sheet_res 4],
      edges = [(sheet_res 0, sheet_res 1, ''pp_bond''), (sheet_res 3, sheet_res 4, ''pp_bond''),
               (sheet_res 0, sheet_res 4, ''nh_to_o1''), (sheet_res 4, sheet_res 0, ''nh_to_o1'')]\<rparr>"

definition hairpin_sheet :: beta_sheet where
  "hairpin_sheet =
     \<lparr>sheet_label = ''A'', strand_list = [strand_a, strand_b], sheet_graph = hairpin_graph\<rparr>"

text \<open>
  A record without hydrogen bonds, two helix residues that differ in the sheet label
  only, and a bridge of a single residue.
\<close>

definition plain_entry :: "int \<Rightarrow> string \<Rightarrow> string \<Rightarrow> real dssp_entry" where
  "plain_entry n s b =
     \<lparr>seq_num = n, ss = s, bbl1 = '' '', bbl2 = '' '', bp1 = 0, bp2 = 0, bsl = b,
      nh_to_o1 = (0, 0), o_to_nh1 = (0, 0), nh_to_o2 = (0, 0), o_to_nh2 = (0, 0)\<rparr>"

definition helix_dict :: "real dssp_dict" where
  "helix_dict = [(''A'', 1) \<mapsto> plain_entry 1 ''H'' ''A'', (''A'', 2) \<mapsto> plain_entry 2 ''H'' '' '']"





text \<open>A quarter turn about the z axis.\<close>

definition quarter_turn :: mat3 where
  "quarter_turn = ((0, - 1, 0), (1, 0, 0), (0, 0, 1))"

section \<open>Properties of the finder\<close>

lemma inner_loop_eq:
  "inner_loop ca idx r1 js r2 =
     (if \<forall>j\<in>set js. idx ! j < length ca
      then Inr (if js = [] then r2 else Some (fst (ca ! (idx ! last js))))
      else Inl IndexError)"
  by (induction js arbitrary: r2) (auto simp: Let_def)

lemma kd_query_length: "length (kd_query pts q k) = k"
  by (simp add: kd_query_def Let_def)

lemma kd_query_nth:
  assumes "k \<le> length pts" and "j < k"
  shows "kd_query pts q k ! j < length pts"
proof -
  let ?srt = "sort_key (\<lambda>i. sqdist (pts ! i) q) [0..<length pts]"
  have len: "length (take k ?srt) = k" using assms by simp
  have "kd_query pts q k ! j = take k ?srt ! j"
    using len assms by (simp add: kd_query_def Let_def nth_append)
  also have "\<dots> \<in> set ?srt"
    using len assms by (metis in_set_takeD nth_mem)
  finally show ?thesis by simp
qed

lemma kd_query_short:
  assumes "length pts < k"
  shows "kd_query pts q k ! length pts = length pts"
  using assms by (simp add: kd_query_def Let_def nth_append)

text \<open>
  With at least four CA atoms the loops never raise, and the partner of every query
  residue is the candidate in place 3 of the query, bonded or not.
\<close>

lemma outer_loop_eq:
  assumes "4 \<le> length ca"
  shows "outer_loop ca js acc =
     Inr (acc @ map (\<lambda>i. (fst (ca ! i),
                          fst (ca ! (kd_query (map snd ca) (snd (ca ! i)) 4 ! 3)))) js)"
proof (induction js arbitrary: acc)
  case Nil
  show ?case by simp
next
  case (Cons i js)
  have "\<forall>j\<in>set [1, 2, 3::nat]. kd_query (map snd ca) (snd (ca ! i)) 4 ! j < length ca"
    using assms kd_query_nth [of 4 "map snd ca" _ "snd (ca ! i)"] by simp
  then have "inner_loop ca (kd_query (map snd ca) (snd (ca ! i)) 4) (fst (ca ! i)) [1, 2, 3] None
      = Inr (Some (fst (ca ! (kd_query (map snd ca) (snd (ca ! i)) 4 ! 3))))"
    by (simp only: inner_loop_eq) simp
  then show ?case using Cons.IH by (simp add: Let_def)
qed

lemma get_nearest_eq:
  assumes "4 \<le> length (get_ca_list m)"
  shows "get_nearest_nonbonded_residues m =
     Inr (map (\<lambda>i. (fst (get_ca_list m ! i),
                    fst (get_ca_list m !
                      (kd_query (map snd (get_ca_list m)) (snd (get_ca_list m ! i)) 4 ! 3))))
            [0..<length (get_ca_list m)])"
proof -
  have "get_ca_list m \<noteq> []" using assms by auto
  then show ?thesis
    using outer_loop_eq [OF assms, of _ "[]"]
    by (simp add: get_nearest_nonbonded_residues_def Let_def)
qed

text \<open>With fewer than four CA atoms the function raises.\<close>

lemma get_nearest_raises:
  assumes "length (get_ca_list m) < 4"
  shows "isl (get_nearest_nonbonded_residues m)"
proof (cases "get_ca_list m = []")
  case True
  then show ?thesis by (simp add: get_nearest_nonbonded_residues_def)
next
  case False
  define ca where "ca = get_ca_list m"
  define n where "n = length ca"
  have n: "0 < n" "n < 4" using False assms by (auto simp: ca_def n_def)
  then have nset: "n \<in> set [1, 2, 3::nat]" by auto
  have up: "[0..<n] = 0 # [1..<n]" using n by (simp add: upt_rec)
  have "kd_query (map snd ca) (snd (ca ! 0)) 4 ! n = n"
    using kd_query_short [of "map snd ca" 4] n by (simp add: n_def)
  then have "\<not> (\<forall>j\<in>set [1, 2, 3::nat]. kd_query (map snd ca) (snd (ca ! 0)) 4 ! j < length ca)"
    using nset unfolding n_def by (metis less_irrefl)
  then have "inner_loop ca (kd_query (map snd ca) (snd (ca ! 0)) 4) (fst (ca ! 0)) [1, 2, 3] None
      = Inl IndexError"
    by (simp only: inner_loop_eq if_False)
  then have "outer_loop ca [0..<n] [] = Inl IndexError"
    by (simp add: up Let_def)
  then show ?thesis using False
    by (simp add: get_nearest_nonbonded_residues_def Let_def ca_def [symmetric] n_def [symmetric])
qed

text \<open>
  Where the third candidate is not bonded, the specification's reading gives the pair
  that the code gives; they part only where the third candidate is bonded.
\<close>

lemma third_candidate:
  "candidates ca i ! 2 = fst (ca ! (kd_query (map snd ca) (snd (ca ! i)) 4 ! 3))"
  by (simp add: candidates_def)

lemma spec_pair_when_third_accepted:
  assumes "\<not> bonded (fst (ca ! i)) (candidates ca i ! 2)"
  shows "spec_pairs_of ca i = [(fst (ca ! i), candidates ca i ! 2)]"
  using assms by (simp add: spec_pairs_of_def candidates_def Let_def)

lemmas finder_defs =
  get_nearest_nonbonded_residues_def get_ca_list_def get_residues_def residues_of_def
  backbone_res_def ca_atoms_def is_hetero_def get_id_def kd_query_def sqdist_def bonded_def
  resseq_def Let_def upt_rec

text \<open>
  C1. The claim: the list returned by \<open>get_nearest_nonbonded_residues\<close> never holds a
  pair of residues of one chain whose sequence numbers differ by exactly 1. The code
  breaks it on the chain \<open>line_chain\<close>: it returns four pairs, and the third one pairs
  residue 3 with residue 4 of the same chain, which \<open>bonded\<close> holds of.
\<close>

theorem line_chain_bonded_pair_returned:
  "\<exists>ps. get_nearest_nonbonded_residues [line_chain] = Inr ps \<and> length ps = 4 \<and>
     chain_id (get_parent (fst (ps ! 2))) = ''A'' \<and>
     chain_id (get_parent (snd (ps ! 2))) = ''A'' \<and>
     resseq (fst (ps ! 2)) = 3 \<and> resseq (snd (ps ! 2)) = 4 \<and>
     bonded (fst (ps ! 2)) (snd (ps ! 2))"
  by (simp add: finder_defs line_chain_def)

text \<open>
  C2. The claim: for every query residue the finder keeps the last of its three
  candidates that is not rejected as bonded, and gives a pair only when some candidate
  is accepted; \<open>spec_nearest_nonbonded\<close> computes that. The code differs from it on
  \<open>two_chain_model\<close>: for residue 2 of chain A the candidates are residue 1 (bonded),
  residue 7 of chain B (accepted) and residue 3 (bonded); the code returns the pair
  with residue 3, the claim's reading the pair with residue 7 of chain B.
\<close>

theorem two_chain_last_candidate_kept:
  "\<exists>ps. get_nearest_nonbonded_residues two_chain_model = Inr ps \<and>
     map (\<lambda>p. (chain_id (get_parent (fst p)), resseq (fst p),
               chain_id (get_parent (snd p)), resseq (snd p))) ps =
       [(''A'', 1, ''A'', 3), (''A'', 2, ''A'', 3), (''A'', 3, ''A'', 1), (''B'', 7, ''A'', 3)] \<and>
     map (\<lambda>p. (chain_id (get_parent (fst p)), resseq (fst p),
               chain_id (get_parent (snd p)), resseq (snd p)))
         (spec_nearest_nonbonded two_chain_model) =
       [(''A'', 1, ''A'', 3), (''A'', 2, ''B'', 7), (''A'', 3, ''A'', 1), (''B'', 7, ''A'', 3)] \<and>
     ps \<noteq> spec_nearest_nonbonded two_chain_model"
  by (simp add: finder_defs two_chain_model_def spec_nearest_nonbonded_def spec_pairs_of_def
      candidates_def)

section \<open>Properties of the encoder\<close>

lemma ebind_Inl [simp]: "ebind (Inl e) f = Inl e"
  by (simp add: ebind_def)

lemma ebind_Inr [simp]: "ebind (Inr x) f = f x"
  by (simp add: ebind_def)

lemma ebind_eq_Inr: "ebind m f = Inr y \<longleftrightarrow> (\<exists>x. m = Inr x \<and> f x = Inr y)"
  by (cases m) simp_all

lemma blank_not_hetero: "\<not> is_hetero '' ''"
  by (simp add: is_hetero_def)

lemma no_neighbour_getitem:
  assumes "no_usable_neighbour r n"
  shows "chain_getitem (get_parent r) n = Inl KeyError"
proof -
  have "find (\<lambda>d. res_id d = ('' '', n, '' '')) (child_list (get_parent r)) = None"
    using assms blank_not_hetero unfolding no_usable_neighbour_def find_None_iff by fastforce
  then show ?thesis by (simp add: chain_getitem_def)
qed

lemma get_phi_unavailable:
  "no_usable_neighbour r (resseq r - 1) \<Longrightarrow> isl (get_phi cd (get_parent r) r)"
  by (simp add: get_phi_def no_neighbour_getitem)

lemma get_psi_unavailable:
  "no_usable_neighbour r (resseq r + 1) \<Longrightarrow> isl (get_psi cd (get_parent r) r)"
  by (simp add: get_psi_def no_neighbour_getitem)

lemma isl_ebind: "isl (ebind m f) \<longleftrightarrow> (case m of Inl e \<Rightarrow> True | Inr x \<Rightarrow> isl (f x))"
  by (cases m) simp_all

lemma get_torsions_unavailable:
  assumes "geometry_unavailable res1 res2"
  shows "isl (get_torsions cd res1 res2)"
  using assms get_phi_unavailable [of res1 cd] get_psi_unavailable [of res1 cd]
    get_phi_unavailable [of res2 cd] get_psi_unavailable [of res2 cd]
  unfolding geometry_unavailable_def get_torsions_def
  by (auto simp: isl_ebind split: sum.splits)

lemma get_phi_atoms:
  assumes "get_phi cd ch r = Inr a"
  shows "\<exists>n ca c. atom_coord r ''N'' = Inr n \<and> atom_coord r ''CA'' = Inr ca \<and> atom_coord r ''C'' = Inr c"
  using assms unfolding get_phi_def by (auto simp: ebind_eq_Inr split: if_splits)

lemma stub_eq:
  assumes "atom_coord r ''N'' = Inr n" "atom_coord r ''CA'' = Inr ca" "atom_coord r ''C'' = Inr c"
  shows "get_residue_stub_matrix r =
     Inr (transpose3
            (normalize (vsub n ca),
             cross (normalize (cross (normalize (vsub n ca)) (vsub c ca))) (normalize (vsub n ca)),
             normalize (cross (normalize (vsub n ca)) (vsub c ca))),
          ca)"
  using assms by (simp add: get_residue_stub_matrix_def Let_def)

lemma stub_available:
  assumes "get_torsions cd res1 res2 = Inr t"
  shows "\<exists>s1 s2 ca1 ca2. get_residue_stub_matrix res1 = Inr (s1, ca1) \<and>
           get_residue_stub_matrix res2 = Inr (s2, ca2) \<and>
           atom_coord res1 ''CA'' = Inr ca1 \<and> atom_coord res2 ''CA'' = Inr ca2"
proof -
  from assms obtain p1 p2 where p: "get_phi cd (get_parent res1) res1 = Inr p1"
      "get_phi cd (get_parent res2) res2 = Inr p2"
    unfolding get_torsions_def by (auto simp: ebind_eq_Inr)
  from get_phi_atoms [OF p(1)] obtain n1 ca1 c1 where
    a1: "atom_coord res1 ''N'' = Inr n1" "atom_coord res1 ''CA'' = Inr ca1" "atom_coord res1 ''C'' = Inr c1"
    by blast
  from get_phi_atoms [OF p(2)] obtain n2 ca2 c2 where
    a2: "atom_coord res2 ''N'' = Inr n2" "atom_coord res2 ''CA'' = Inr ca2" "atom_coord res2 ''C'' = Inr c2"
    by blast
  show ?thesis using stub_eq [OF a1] stub_eq [OF a2] a1(2) a2(2) by blast
qed

lemma loop_step:
  "extract_pairs cd (p # ps) fl = extract_pairs cd ps (fl @ pair_records cd p)"
proof -
  obtain res1 res2 where p: "p = (res1, res2)" by (cases p)
  show ?thesis
  proof (cases "get_torsions cd res1 res2")
    case (Inl e)
    then show ?thesis by (simp add: p pair_records_def)
  next
    case (Inr t)
    from stub_available [OF Inr] obtain s1 s2 ca1 ca2 where
      s: "get_residue_stub_matrix res1 = Inr (s1, ca1)"
         "get_residue_stub_matrix res2 = Inr (s2, ca2)"
         "atom_coord res1 ''CA'' = Inr ca1" "atom_coord res2 ''CA'' = Inr ca2"
      by blast
    show ?thesis by (simp add: p pair_records_def Inr s relative_pose_def Let_def)
  qed
qed

lemma extract_pairs_records:
  "extract_pairs cd ps fl = Inr (fl @ concat (map (pair_records cd) ps))"
  by (induction ps arbitrary: fl) (simp_all add: loop_step del: extract_pairs.simps(2))

lemma good_pair_emits:
  assumes "get_torsions cd (fst p) (snd p) = Inr t"
  shows "length (pair_records cd p) = 1"
proof -
  from stub_available [OF assms] obtain s1 s2 ca1 ca2 where
    "get_residue_stub_matrix (fst p) = Inr (s1, ca1)"
    "get_residue_stub_matrix (snd p) = Inr (s2, ca2)" by blast
  then show ?thesis by (simp add: pair_records_def assms Let_def)
qed

lemma unavailable_pair_no_record:
  assumes "geometry_unavailable res1 res2"
  shows "pair_records cd (res1, res2) = []"
proof -
  from get_torsions_unavailable [OF assms, of cd] obtain e where
    "get_torsions cd res1 res2 = Inl e" by (cases "get_torsions cd res1 res2") auto
  then show ?thesis by (simp add: pair_records_def)
qed

text \<open>
  C9. When the geometry of the pair \<open>(res1, res2)\<close> is unavailable, no record is due
  for it, and the loop over the batch \<open>ps\<close>, the pair, \<open>qs\<close> ends without an
  exception with the records \<open>fl\<close> that were there before, unchanged, followed by the
  records of the pairs of \<open>ps\<close> and then those of the pairs of \<open>qs\<close>, in order; each
  of these pairs whose torsions can be computed has exactly one record.
\<close>

theorem encoder_skips_pair:
  assumes "geometry_unavailable res1 res2"
  shows "pair_records cd (res1, res2) = [] \<and>
     extract_pairs cd (ps @ (res1, res2) # qs) fl =
       Inr (fl @ concat (map (pair_records cd) ps) @ concat (map (pair_records cd) qs)) \<and>
     (\<forall>p \<in> set (ps @ qs). \<not> isl (get_torsions cd (fst p) (snd p)) \<longrightarrow>
        length (pair_records cd p) = 1)"
proof (intro conjI ballI impI)
  show n: "pair_records cd (res1, res2) = []" using assms by (rule unavailable_pair_no_record)
  show "extract_pairs cd (ps @ (res1, res2) # qs) fl =
       Inr (fl @ concat (map (pair_records cd) ps) @ concat (map (pair_records cd) qs))"
    by (simp add: extract_pairs_records n del: extract_pairs.simps(2))
next
  fix p assume "\<not> isl (get_torsions cd (fst p) (snd p))"
  then obtain t where "get_torsions cd (fst p) (snd p) = Inr t"
    by (cases "get_torsions cd (fst p) (snd p)") auto
  then show "length (pair_records cd p) = 1" by (rule good_pair_emits)
qed

lemmas line_defs =
  line_residue_def residues_of_def line_chain_def backbone_res_def resseq_def get_id_def

lemma line_pair_records:
  "pair_records x_gap (line_residue 1, line_residue 2) = [line_record 1 2 2 7 2]"
  "pair_records x_gap (line_residue 2, line_residue 1) = [line_record 2 7 1 2 (- 2)]"
  by (simp_all add: pair_records_def get_torsions_def get_phi_def get_psi_def chain_getitem_def
      atom_coord_def is_hetero_def get_residue_stub_matrix_def normalize_def linalg_norm_def
      dot_def cross_def vsub_def vdiv_def transpose3_def matvec_def matmul_def
      rotation_matrix_to_euler_angles_def arctan2_def row0_def row1_def row2_def col0_def
      col1_def col2_def c0_def c1_def c2_def x_gap_def line_record_def line_defs Let_def)

theorem encoder_skips_pair_witness:
  "geometry_unavailable (line_residue 0) (line_residue 3) \<and>
   pair_records x_gap (line_residue 0, line_residue 3) = [] \<and>
   extract_pairs x_gap
     ([(line_residue 1, line_residue 2)] @ (line_residue 0, line_residue 3) #
      [(line_residue 2, line_residue 1)]) [line_record 0 0 0 0 0]
     = Inr [line_record 0 0 0 0 0, line_record 1 2 2 7 2, line_record 2 7 1 2 (- 2)]"
proof -
  have h: "geometry_unavailable (line_residue 0) (line_residue 3)"
    by (simp add: geometry_unavailable_def no_usable_neighbour_def line_defs)
  show ?thesis
    using h encoder_skips_pair [OF h, of x_gap "[(line_residue 1, line_residue 2)]"
        "[(line_residue 2, line_residue 1)]" "[line_record 0 0 0 0 0]"]
    by (simp add: line_pair_records del: extract_pairs.simps One_nat_def)
qed

section \<open>Properties of same_ss\<close>

lemma setdefault_fst:
  assumes "ss_map_ok m"
  shows "fst (setdefault m k '' '') = mapped_class k"
  using assms [unfolded ss_map_ok_def, rule_format, of k]
  by (auto simp: setdefault_def)

lemma setdefault_snd:
  assumes "ss_map_ok m"
  shows "ss_map_ok (snd (setdefault m k '' ''))"
proof (cases "m k")
  case None
  then have "mapped_class k = '' ''"
    using assms [unfolded ss_map_ok_def, rule_format, of k] by simp
  then show ?thesis
    using assms None by (auto simp: setdefault_def ss_map_ok_def)
next
  case (Some v)
  then show ?thesis using assms by (simp add: setdefault_def)
qed

lemma ss_map_init_ok: "ss_map_ok ss_map_init"
  by (simp add: ss_map_ok_def ss_map_init_def mapped_class_def setdefault_def)

text \<open>
  What \<open>same_ss\<close> computes, in every state of the table that the function can be in:
  it returns true if and only if the mapped classes of the two records are equal and
  their sheet labels are equal, whatever the class is.
\<close>

lemma same_ss_iff:
  assumes "ss_map_ok sm" and "dd key1 = Some d1" and "dd key2 = Some d2"
  shows "\<exists>sm'. same_ss sm dd key1 key2 =
            Inr (mapped_class (ss d1) = mapped_class (ss d2) \<and> bsl d1 = bsl d2, sm') \<and>
          ss_map_ok sm'"
proof -
  let ?r1 = "setdefault sm (ss d1) '' ''"
  let ?r2 = "setdefault (snd ?r1) (ss d2) '' ''"
  have ok1: "ss_map_ok (snd ?r1)" using assms(1) by (rule setdefault_snd)
  have f1: "fst ?r1 = mapped_class (ss d1)" using assms(1) by (rule setdefault_fst)
  have f2: "fst ?r2 = mapped_class (ss d2)" using ok1 by (rule setdefault_fst)
  have ok2: "ss_map_ok (snd ?r2)" using ok1 by (rule setdefault_snd)
  have "same_ss sm dd key1 key2 =
      Inr (mapped_class (ss d1) = mapped_class (ss d2) \<and> bsl d1 = bsl d2, snd ?r2)"
    using assms(2,3) f1 f2 by (simp add: same_ss_def dict_getitem_def Let_def)
  then show ?thesis using ok2 by blast
qed

text \<open>The segments of a chain, put end to end, are the residues of the chain.\<close>

lemma scan_run_split:
  "scan_run sm dd c s rs = Inr (run, rest, sm') \<Longrightarrow> rs = run @ rest"
proof (induction rs arbitrary: sm run rest sm')
  case Nil
  then show ?case by simp
next
  case (Cons r rs)
  then show ?case
    by (fastforce split: sum.splits prod.splits if_splits)
qed

lemma make_segment_residues: "segment_residues (fst (make_segment sm d rs)) = rs"
  by (simp add: make_segment_def Let_def)

lemma segment_loop_covers:
  "segment_loop sm dd c rs = Inr (segments, sm') \<Longrightarrow>
     concat (map segment_residues segments) = rs"
proof (induction sm dd c rs arbitrary: segments sm' rule: segment_loop.induct)
  case (1 ss_map dssp_dict c_id)
  then show ?case by simp
next
  case (2 ss_map dssp_dict c_id r rs)
  from "2.prems" obtain d run rest ss_map1 segs where
    d: "dict_getitem dssp_dict (c_id, resseq r) = Inr d" and
    sc: "scan_run ss_map dssp_dict c_id (resseq r) rs = Inr (run, rest, ss_map1)" and
    rec: "segment_loop (snd (make_segment ss_map1 d (r # run))) dssp_dict c_id rest = Inr (segs, sm')" and
    segs: "segments = fst (make_segment ss_map1 d (r # run)) # segs"
    by (auto split: sum.splits prod.splits)
  have "concat (map segment_residues segs) = rest"
    using "2.IH" [OF d sc refl refl rec] .
  then show ?case using scan_run_split [OF sc] by (simp add: segs make_segment_residues)
qed

text \<open>
  C6. The claim: two residues are the same segment if and only if their mapped classes
  are equal, and the sheet labels have to agree only for strand classes, so that
  differing sheet labels do not split a run of other residues; the docstring of
  \<open>same_ss\<close> says the same. The code breaks it on \<open>helix_chain\<close> with
  \<open>helix_dict\<close>: the two residues are both of class H, with sheet labels A and
  blank; the claim's test holds of them, \<open>same_ss\<close> returns false, and the segment
  loop gives two helices of one residue instead of one helix of two.
\<close>

theorem helix_sheet_label_splits:
  "helix_dict (''A'', 1) = Some (plain_entry 1 ''H'' ''A'') \<and>
   helix_dict (''A'', 2) = Some (plain_entry 2 ''H'' '' '') \<and>
   spec_same_ss (plain_entry 1 ''H'' ''A'') (plain_entry 2 ''H'' '' '') \<and>
   same_ss ss_map_init helix_dict (''A'', 1) (''A'', 2) = Inr (False, ss_map_init) \<and>
   pack_chains ss_map_init helix_dict [helix_chain] =
     Inr ([AlphaHelix [helix_res 0], AlphaHelix [helix_res 1]], ss_map_init)"
  by (simp add: helix_chain_def helix_res_def residues_of_def backbone_res_def helix_dict_def
      plain_entry_def dict_getitem_def same_ss_def setdefault_def ss_map_init_def
      make_segment_def resseq_def get_id_def Let_def spec_same_ss_def mapped_class_def
      strand_class_def)

section \<open>Properties of the sheet graph: edges\<close>

lemma hb_edges_iff:
  "(a, b, c) \<in> hb_edges km m rs res sn hb k \<longleftrightarrow>
     a = res \<and> c = k \<and> snd hb < - 1.5 \<and> resolve_partner km m (sn + fst hb) = Inr b \<and>
     b \<in> set rs"
  by (auto simp: hb_edges_def)

lemma add_hbond_edges:
  assumes "add_hbond km m rs res sn hb k g = Inr g'"
  shows "set (edges g') = set (edges g) \<union> hb_edges km m rs res sn hb k"
proof (cases "snd hb < HB_ENERGY_LIMIT")
  case False
  then have "g' = g" using assms by (simp add: add_hbond_def)
  moreover have "hb_edges km m rs res sn hb k = {}"
    using False by (auto simp: hb_edges_def HB_ENERGY_LIMIT_def)
  ultimately show ?thesis by simp
next
  case True
  with assms obtain res2 where
    r: "resolve_partner km m (sn + fst hb) = Inr res2" and
    g': "g' = (if res2 \<in> set rs then add_edge g res res2 k else g)"
    by (auto simp: add_hbond_def ebind_eq_Inr)
  have "hb_edges km m rs res sn hb k = (if res2 \<in> set rs then {(res, res2, k)} else {})"
    using True r by (auto simp: hb_edges_def HB_ENERGY_LIMIT_def)
  then show ?thesis using g' by (simp add: add_edge_def)
qed

lemma add_hbonds_of_edges:
  assumes "add_hbonds_of dd km m rs res g = Inr g'"
  shows "\<exists>d. dd (chain_id (get_parent res), resseq res) = Some d \<and>
           set (edges g') = set (edges g) \<union> (\<Union>(k, hb) \<in> set (hb_kinds d). hb_edges km m rs res (seq_num d) hb k)"
proof -
  from assms obtain d g1 g2 g3 where
    d: "dict_getitem dd (chain_id (get_parent res), resseq res) = Inr d" and
    1: "add_hbond km m rs res (seq_num d) (nh_to_o1 d) ''nh_to_o1'' g = Inr g1" and
    2: "add_hbond km m rs res (seq_num d) (o_to_nh1 d) ''o_to_nh1'' g1 = Inr g2" and
    3: "add_hbond km m rs res (seq_num d) (nh_to_o2 d) ''nh_to_o2'' g2 = Inr g3" and
    4: "add_hbond km m rs res (seq_num d) (o_to_nh2 d) ''o_to_nh2'' g3 = Inr g'"
    unfolding add_hbonds_of_def ebind_eq_Inr by blast
  from d have "dd (chain_id (get_parent res), resseq res) = Some d"
    by (simp add: dict_getitem_def split: option.splits)
  moreover have "set (edges g') = set (edges g) \<union> (\<Union>(k, hb) \<in> set (hb_kinds d). hb_edges km m rs res (seq_num d) hb k)"
    using add_hbond_edges [OF 1] add_hbond_edges [OF 2] add_hbond_edges [OF 3]
      add_hbond_edges [OF 4]
    by (auto simp: hb_kinds_def)
  ultimately show ?thesis by blast
qed

lemma hbond_loop_edges:
  assumes "hbond_loop dd km m rs xs g = Inr g'"
  shows "set (edges g') = set (edges g) \<union>
     {e. \<exists>res \<in> set xs. \<exists>d. dd (chain_id (get_parent res), resseq res) = Some d \<and>
           e \<in> (\<Union>(k, hb) \<in> set (hb_kinds d). hb_edges km m rs res (seq_num d) hb k)}"
  using assms
proof (induction xs arbitrary: g)
  case Nil
  then show ?case by simp
next
  case (Cons x xs)
  from Cons.prems obtain g1 where
    1: "add_hbonds_of dd km m rs x g = Inr g1" and
    2: "hbond_loop dd km m rs xs g1 = Inr g'"
    by (auto simp: ebind_eq_Inr)
  from add_hbonds_of_edges [OF 1] obtain d where
    d: "dd (chain_id (get_parent x), resseq x) = Some d" and
    e: "set (edges g1) = set (edges g) \<union> (\<Union>(k, hb) \<in> set (hb_kinds d). hb_edges km m rs x (seq_num d) hb k)"
    by blast
  show ?case unfolding Cons.IH [OF 2] e using d by auto
qed

lemma add_pp_bonds_edges:
  "e \<in> set (edges (add_pp_bonds rs g)) \<Longrightarrow> e \<in> set (edges g) \<or> snd (snd e) = ''pp_bond''"
  by (induction rs g rule: add_pp_bonds.induct) (auto simp: add_edge_def)

lemma add_strands_edges:
  "e \<in> set (edges (add_strands sl g)) \<Longrightarrow> e \<in> set (edges g) \<or> snd (snd e) = ''pp_bond''"
proof (induction sl arbitrary: g)
  case Nil
  then show ?case by simp
next
  case (Cons s sl)
  then show ?case using add_pp_bonds_edges by fastforce
qed

text \<open>
  Backbone edges join residues of one strand, and only a strand of two or more residues
  has any; so a residue of a strand of one residue is an end of hydrogen-bond edges only.
\<close>

lemma add_pp_bonds_ends:
  assumes "e \<in> set (edges (add_pp_bonds rs g))"
  shows "e \<in> set (edges g) \<or>
     (snd (snd e) = ''pp_bond'' \<and> 2 \<le> length rs \<and> fst e \<in> set rs \<and> fst (snd e) \<in> set rs)"
  using assms
proof (induction rs g rule: add_pp_bonds.induct)
  case (1 a b rs g)
  from "1.IH" [OF "1.prems" [simplified]] show ?case
    by (auto simp: add_edge_def)
qed simp_all

lemma add_strands_pp_ends:
  assumes "e \<in> set (edges (add_strands sl g))"
  shows "e \<in> set (edges g) \<or>
     (snd (snd e) = ''pp_bond'' \<and>
      (\<exists>s \<in> set sl. 2 \<le> length (residue_list s) \<and> fst e \<in> set (residue_list s) \<and>
         fst (snd e) \<in> set (residue_list s)))"
  using assms
proof (induction sl arbitrary: g)
  case Nil
  then show ?case by simp
next
  case (Cons s sl)
  from Cons.IH [OF Cons.prems [simplified]] add_pp_bonds_ends [of e "residue_list s" g]
  show ?case by auto
qed

lemma hb_kind_names:
  "(k, hb) \<in> set (hb_kinds d) \<Longrightarrow> k \<noteq> ''pp_bond''"
  by (auto simp: hb_kinds_def)

text \<open>
  C7. When the graph of a sheet is built without an exception, for a residue \<open>res\<close> of
  the union of its strands, with record \<open>d\<close>, and each of its four descriptors \<open>hb\<close>
  with edge type \<open>k\<close>: the graph has the edge of type \<open>k\<close> from \<open>res\<close> to \<open>res2\<close>
  if and only if the energy of \<open>hb\<close> is strictly below -1.5 and \<open>res2\<close> is the
  residue that the index and the model give for (own sequence number + offset) and is
  itself in the union. An energy of exactly -1.5 therefore gives no edge, and -1.51 with
  a partner in the union gives one.
\<close>

theorem sheet_hbond_edge_iff:
  assumes g: "init_sheet_graph strands dd km m = Inr g"
    and res: "res \<in> set (strand_residues strands)"
    and d: "dd (chain_id (get_parent res), resseq res) = Some d"
    and k: "(k, hb) \<in> set (hb_kinds d)"
  shows "(res, res2, k) \<in> set (edges g) \<longleftrightarrow>
           snd hb < - 1.5 \<and> resolve_partner km m (seq_num d + fst hb) = Inr res2 \<and>
           res2 \<in> set (strand_residues strands)"
proof -
  let ?rs = "strand_residues strands"
  let ?g0 = "add_strands strands empty_graph"
  from g have loop: "hbond_loop dd km m ?rs ?rs ?g0 = Inr g"
    by (simp add: init_sheet_graph_def Let_def)
  have pp: "(res, res2, k) \<notin> set (edges ?g0)"
    using add_strands_edges [of "(res, res2, k)" strands empty_graph] hb_kind_names [OF k]
    by (auto simp: empty_graph_def)
  have uniq: "\<And>hb'. (k, hb') \<in> set (hb_kinds d) \<Longrightarrow> hb' = hb"
    using k by (auto simp: hb_kinds_def)
  have "(res, res2, k) \<in> set (edges g) \<longleftrightarrow>
      (\<exists>r \<in> set ?rs. \<exists>d'. dd (chain_id (get_parent r), resseq r) = Some d' \<and>
         (\<exists>x \<in> set (hb_kinds d'). (res, res2, k) \<in> hb_edges km m ?rs r (seq_num d') (snd x) (fst x)))"
    unfolding hbond_loop_edges [OF loop] using pp by (auto simp: case_prod_beta)
  also have "\<dots> \<longleftrightarrow> (\<exists>x \<in> set (hb_kinds d). (res, res2, k) \<in> hb_edges km m ?rs res (seq_num d) (snd x) (fst x))"
    using res d by (auto simp: hb_edges_iff)
  also have "\<dots> \<longleftrightarrow> (res, res2, k) \<in> hb_edges km m ?rs res (seq_num d) hb k"
    using k uniq by (force simp: hb_edges_iff)
  finally show ?thesis by (simp add: hb_edges_iff)
qed

section \<open>Properties of the sheet graph: nodes\<close>


















section \<open>Properties of make_dssp_dict\<close>

lemma parse_row_seq_num:
  assumes "parse_row pf l = Inr (key, entry)"
  shows "row_seq_num l = Inr (seq_num entry)"
  using assms unfolding parse_row_def row_seq_num_def ebind_eq_Inr by auto

lemma parse_rows_inverse:
  assumes "parse_rows pf ls (dd0, km0) = Inr (dd, km)"
    and "distinct (map row_seq_num (filter is_data_row ls))"
    and "\<forall>l \<in> set (filter is_data_row ls). \<forall>n. row_seq_num l = Inr n \<longrightarrow> km0 n = None"
    and "\<forall>k d. dd0 k = Some d \<longrightarrow> km0 (seq_num d) = Some k"
  shows "\<forall>k d. dd k = Some d \<longrightarrow> km (seq_num d) = Some k"
  using assms
proof (induction ls arbitrary: dd0 km0)
  case Nil
  then show ?case by simp
next
  case (Cons l ls)
  show ?case
  proof (cases "is_data_row l")
    case False
    then have skip: "strip l = [] \<or> str_at l 9 = Inr '' ''" by (simp add: is_data_row_def)
    then have "parse_rows pf (l # ls) (dd0, km0) = parse_rows pf ls (dd0, km0)"
      by auto
    then show ?thesis using Cons.IH [of dd0 km0] Cons.prems False by simp
  next
    case True
    then have nb: "strip l \<noteq> []" and n9: "str_at l 9 \<noteq> Inr '' ''"
      by (simp_all add: is_data_row_def)
    from Cons.prems(1) nb n9 obtain key entry where
      row: "parse_row pf l = Inr (key, entry)" and
      rest: "parse_rows pf ls (dd0(key \<mapsto> entry), km0(seq_num entry \<mapsto> key)) = Inr (dd, km)"
      by (auto simp: ebind_eq_Inr split: if_splits)
    have sn: "row_seq_num l = Inr (seq_num entry)" using row by (rule parse_row_seq_num)
    have fresh: "km0 (seq_num entry) = None"
      using Cons.prems(3) True sn by simp
    have d: "distinct (map row_seq_num (filter is_data_row ls))"
      using Cons.prems(2) True by simp
    have notin: "\<forall>l' \<in> set (filter is_data_row ls). row_seq_num l' \<noteq> Inr (seq_num entry)"
      using Cons.prems(2) True sn by force
    have f: "\<forall>l' \<in> set (filter is_data_row ls). \<forall>n. row_seq_num l' = Inr n \<longrightarrow>
        (km0(seq_num entry \<mapsto> key)) n = None"
      using Cons.prems(3) notin True by auto
    have i: "\<forall>k d. (dd0(key \<mapsto> entry)) k = Some d \<longrightarrow> (km0(seq_num entry \<mapsto> key)) (seq_num d) = Some k"
    proof (intro allI impI)
      fix k d assume kd: "(dd0(key \<mapsto> entry)) k = Some d"
      show "(km0(seq_num entry \<mapsto> key)) (seq_num d) = Some k"
      proof (cases "k = key")
        case True
        then show ?thesis using kd by simp
      next
        case False
        then have "dd0 k = Some d" using kd by simp
        then have old: "km0 (seq_num d) = Some k" using Cons.prems(4) by blast
        then have "seq_num d \<noteq> seq_num entry" using fresh by auto
        then show ?thesis using old by simp
      qed
    qed
    show ?thesis by (rule Cons.IH [OF rest d f i])
  qed
qed

text \<open>
  C10. When \<open>make_dssp_dict\<close> returns the dictionary and the index for a text whose
  data rows carry pairwise distinct sequence numbers, the index maps the sequence number
  of the record stored under a key \<open>k\<close> back to \<open>k\<close>.
\<close>

theorem key_map_inverts_dssp_dict:
  assumes "make_dssp_dict pf out err = Inr (dssp_dict, key_map)"
    and "distinct (map row_seq_num (data_rows out))"
    and "dssp_dict k = Some d"
  shows "key_map (seq_num d) = Some k"
proof -
  from assms(1) obtain rows where
    h: "skip_headers (split_on CHR 0x0A out) = Inr rows" and
    p: "parse_rows pf rows (Map.empty, Map.empty) = Inr (dssp_dict, key_map)"
    by (auto simp: make_dssp_dict_def parse_output_def ebind_eq_Inr)
  have dr: "data_rows out = filter is_data_row rows" using h by (simp add: data_rows_def)
  have "\<forall>k d. dssp_dict k = Some d \<longrightarrow> key_map (seq_num d) = Some k"
    using parse_rows_inverse [OF p] assms(2) dr by simp
  then show ?thesis using assms(3) by blast
qed

lemma strip_empty_all_space:
  assumes "strip s = []"
  shows "\<forall>c \<in> set s. is_space c"
proof -
  have "dropWhile is_space (rev (dropWhile is_space s)) = []"
    using assms by (simp add: strip_def)
  then have "\<forall>c \<in> set (dropWhile is_space s). is_space c"
    by (simp add: dropWhile_eq_Nil_conv)
  then have "dropWhile is_space s = []"
    by (metis hd_dropWhile hd_in_set)
  then show ?thesis by (simp add: dropWhile_eq_Nil_conv)
qed

lemma split_acc_chars:
  "l \<in> set (split_acc sep cur s) \<Longrightarrow> set l \<subseteq> set cur \<union> set s"
proof (induction s arbitrary: cur)
  case Nil
  then show ?case by simp
next
  case (Cons c s)
  show ?case
  proof (cases "c = sep")
    case True
    then have "l = cur \<or> l \<in> set (split_acc sep [] s)" using Cons.prems by simp
    then show ?thesis using Cons.IH [of "[]"] by auto
  next
    case False
    then have "l \<in> set (split_acc sep (cur @ [c]) s)" using Cons.prems by simp
    then show ?thesis using Cons.IH [of "cur @ [c]"] by auto
  qed
qed

lemma words_acc_blank:
  "\<forall>c \<in> set s. is_space c \<Longrightarrow> words_acc [] s = []"
  by (induction s) auto

lemma skip_headers_no_header:
  "\<forall>l \<in> set ls. length (split_ws l) < 2 \<Longrightarrow> skip_headers ls = Inl IndexError"
  by (induction ls) auto

lemma blank_output_no_header:
  assumes "strip out = []"
  shows "skip_headers (split_on CHR 0x0A out) = Inl IndexError"
proof -
  have sp: "\<forall>c \<in> set out. is_space c" using assms by (rule strip_empty_all_space)
  have "\<forall>l \<in> set (split_on CHR 0x0A out). length (split_ws l) < 2"
  proof
    fix l assume "l \<in> set (split_on CHR 0x0A out)"
    then have "set l \<subseteq> set out" using split_acc_chars [of l _ "[]" out] by (simp add: split_on_def)
    then have "\<forall>c \<in> set l. is_space c" using sp by blast
    then show "length (split_ws l) < 2" by (simp add: split_ws_def words_acc_blank)
  qed
  then show ?thesis by (rule skip_headers_no_header)
qed

text \<open>
  Two facts about the channels: blank output always makes the function raise (the header
  loop runs past the last line), and blank diagnostic text plays no part in the result.
\<close>

lemma make_dssp_dict_raises:
  "(strip out = [] \<longrightarrow> isl (make_dssp_dict pf out err)) \<and>
   (strip err = [] \<longrightarrow> make_dssp_dict pf out err = parse_output pf out)"
proof (intro conjI impI)
  assume "strip out = []"
  then have "parse_output pf out = Inl IndexError"
    by (simp add: parse_output_def blank_output_no_header)
  then show "isl (make_dssp_dict pf out err)"
    by (simp add: make_dssp_dict_def isl_ebind split: sum.splits)
next
  assume "strip err = []"
  then show "make_dssp_dict pf out err = parse_output pf out"
    by (simp add: make_dssp_dict_def report_error_def)
qed

lemma empty_channels_raise:
  "make_dssp_dict float_of_decimal [] [] = Inl IndexError \<and> \<not> spec_fatal [] []"
  by (simp add: make_dssp_dict_def report_error_def parse_output_def split_on_def split_ws_def
      strip_def spec_fatal_def)

text \<open>
  Diagnostic text that is not blank always ends the call, with or without output: the
  call of \<open>warnings.warn\<close> raises NameError before anything is parsed.
\<close>

lemma diagnostic_raises_name_error:
  "strip err \<noteq> [] \<Longrightarrow> make_dssp_dict pf out err = Inl NameError"
  by (simp add: make_dssp_dict_def report_error_def warnings_warn_def)

section \<open>The concrete assignment text and sheet\<close>

lemma hairpin_split:
  "split_on CHR 0x0A hairpin_text =
     [dssp_header, dssp_row1, dssp_row2, dssp_row3, dssp_row4, dssp_row5, dssp_break, []]"
  by code_simp

lemma hairpin_header:
  "(length (split_ws dssp_header) < 2 \<or> split_ws dssp_header ! 1 \<noteq> ''RESIDUE'') = False"
  by code_simp

lemma hairpin_rows:
  "parse_row float_of_decimal dssp_row1 = Inr ((''A'', 1), strand_entry 1 5 (4, - 2) (4, - 1.5))"
  "parse_row float_of_decimal dssp_row2 = Inr ((''A'', 2), strand_entry 2 4 (1, - 3) (0, 0))"
  "parse_row float_of_decimal dssp_row3 = Inr ((''A'', 3), turn_entry 3)"
  "parse_row float_of_decimal dssp_row4 = Inr ((''A'', 4), strand_entry 4 2 (0, 0) (0, 0))"
  "parse_row float_of_decimal dssp_row5 = Inr ((''A'', 5), strand_entry 5 1 (- 4, - 1.51) (0, 0))"
  by code_simp+

lemma hairpin_guards:
  "strip dssp_row1 \<noteq> []" "str_at dssp_row1 9 = Inr ''1''"
  "strip dssp_row2 \<noteq> []" "str_at dssp_row2 9 = Inr ''2''"
  "strip dssp_row3 \<noteq> []" "str_at dssp_row3 9 = Inr ''3''"
  "strip dssp_row4 \<noteq> []" "str_at dssp_row4 9 = Inr ''4''"
  "strip dssp_row5 \<noteq> []" "str_at dssp_row5 9 = Inr ''5''"
  "strip dssp_break \<noteq> []" "str_at dssp_break 9 = Inr '' ''"
  by code_simp+

lemma hairpin_seq_nums:
  "row_seq_num dssp_row1 = Inr 1" "row_seq_num dssp_row2 = Inr 2" "row_seq_num dssp_row3 = Inr 3"
  "row_seq_num dssp_row4 = Inr 4" "row_seq_num dssp_row5 = Inr 5"
  by code_simp+

lemma strip_Nil: "strip [] = []"
  by (simp add: strip_def)

lemma hairpin_skip:
  "skip_headers [dssp_header, dssp_row1, dssp_row2, dssp_row3, dssp_row4, dssp_row5, dssp_break, []]
     = Inr [dssp_row1, dssp_row2, dssp_row3, dssp_row4, dssp_row5, dssp_break, []]"
  by (simp only: skip_headers.simps hairpin_header if_False)

lemma hairpin_parse_rows:
  "parse_rows float_of_decimal [dssp_row1, dssp_row2, dssp_row3, dssp_row4, dssp_row5, dssp_break, []]
     (Map.empty, Map.empty) = Inr (hairpin_dssp, hairpin_key_map)"
  by (simp add: hairpin_rows hairpin_guards strip_Nil hairpin_dssp_def hairpin_key_map_def strand_entry_def turn_entry_def)

lemma hairpin_parsed:
  "make_dssp_dict float_of_decimal hairpin_text [] = Inr (hairpin_dssp, hairpin_key_map)"
  by (simp add: make_dssp_dict_def report_error_def parse_output_def hairpin_split strip_Nil
      hairpin_skip hairpin_parse_rows del: skip_headers.simps parse_rows.simps)

lemma hairpin_data_rows:
  "data_rows hairpin_text = [dssp_row1, dssp_row2, dssp_row3, dssp_row4, dssp_row5]"
  by (simp add: data_rows_def hairpin_split hairpin_skip is_data_row_def hairpin_guards strip_Nil
      del: skip_headers.simps)

lemma hairpin_parse_output:
  "parse_output float_of_decimal hairpin_text = Inr (hairpin_dssp, hairpin_key_map)"
  by (simp add: parse_output_def hairpin_split hairpin_skip hairpin_parse_rows
      del: skip_headers.simps parse_rows.simps)

lemma warning_not_blank: "strip ''warning'' \<noteq> []"
  by code_simp

text \<open>
  C5. The claim: the function raises exactly when the tool writes diagnostic text and
  no output text, and diagnostic text together with output text does not stop the
  parse; \<open>spec_make_dssp_dict\<close> computes that. The code breaks it on the hairpin text
  with the diagnostic text \<open>warning\<close>: the claim's reading returns the dictionary and
  the index, as the code does without diagnostic text, but with it the code raises
  NameError, because \<open>warnings.warn\<close> is called and the module binds no name
  \<open>warnings\<close>.
\<close>

theorem diagnostic_with_output_aborts:
  "make_dssp_dict float_of_decimal hairpin_text ''warning'' = Inl NameError \<and>
   spec_make_dssp_dict float_of_decimal hairpin_text ''warning''
     = Inr (hairpin_dssp, hairpin_key_map) \<and>
   make_dssp_dict float_of_decimal hairpin_text [] = Inr (hairpin_dssp, hairpin_key_map)"
proof -
  have "hairpin_text \<noteq> []" by (simp add: hairpin_text_def hairpin_lines_def)
  then have "spec_make_dssp_dict float_of_decimal hairpin_text ''warning''
      = Inr (hairpin_dssp, hairpin_key_map)"
    by (simp add: spec_make_dssp_dict_def spec_fatal_def hairpin_parse_output)
  moreover have "make_dssp_dict float_of_decimal hairpin_text ''warning'' = Inl NameError"
    using warning_not_blank by (simp add: make_dssp_dict_def report_error_def warnings_warn_def)
  ultimately show ?thesis using hairpin_parsed by simp
qed

theorem key_map_inverts_dssp_dict_witness:
  "make_dssp_dict float_of_decimal hairpin_text [] = Inr (hairpin_dssp, hairpin_key_map) \<and>
   distinct (map row_seq_num (data_rows hairpin_text)) \<and>
   hairpin_dssp (''A'', 5) = Some (strand_entry 5 1 (- 4, - 1.51) (0, 0)) \<and>
   hairpin_key_map (seq_num (strand_entry 5 1 (- 4, - 1.51) (0, 0))) = Some (''A'', 5)"
proof -
  have 1: "make_dssp_dict float_of_decimal hairpin_text [] = Inr (hairpin_dssp, hairpin_key_map)"
    by (rule hairpin_parsed)
  have 2: "distinct (map row_seq_num (data_rows hairpin_text))"
    by (simp add: hairpin_data_rows hairpin_seq_nums)
  have 3: "hairpin_dssp (''A'', 5) = Some (strand_entry 5 1 (- 4, - 1.51) (0, 0))"
    by (simp add: hairpin_dssp_def)
  show ?thesis using 1 2 3 key_map_inverts_dssp_dict [OF 1 2 3] by blast
qed

lemmas sheet_defs =
  sheet_chain_def sheet_res_def residues_of_def backbone_res_def strand_a_def strand_b_def
  hairpin_dssp_def hairpin_key_map_def strand_entry_def turn_entry_def

lemma hairpin_graph_built:
  "init_sheet_graph [strand_a, strand_b] hairpin_dssp hairpin_key_map [sheet_chain] = Inr hairpin_graph"
  by (simp add: init_sheet_graph_def strand_residues_def add_hbonds_of_def add_hbond_def
      resolve_partner_def dict_getitem_def model_getitem_def chain_getitem_def add_edge_def
      add_node_def empty_graph_def HB_ENERGY_LIMIT_def resseq_def get_id_def hairpin_graph_def
      sheet_defs Let_def)

lemma strand_labels: "sheet_id strand_a = ''A''" "sheet_id strand_b = ''A''"
  by (simp_all add: strand_a_def strand_b_def)

lemma hairpin_sheets_built:
  "sheet_list_of hairpin_ss_list hairpin_dssp hairpin_key_map [sheet_chain] = Inr [hairpin_sheet]"
  by (simp add: sheet_list_of_def sheet_id_set_def hairpin_ss_list_def strand_labels BetaSheet_def
      hairpin_graph_built hairpin_sheet_def)

text \<open>
  The whole of \<^verbatim>\<open>pack_dssp_dict_into_ss_list\<close> on the hairpin: the segments are
  strand, loop, strand, and there is the one sheet.
\<close>

lemma hairpin_segments:
  "pack_chains ss_map_init hairpin_dssp [sheet_chain] = Inr (hairpin_ss_list, ss_map_init)"
  by (simp add: hairpin_ss_list_def same_ss_def dict_getitem_def setdefault_def ss_map_init_def
      make_segment_def resseq_def get_id_def sheet_defs Let_def)

lemma hairpin_packed:
  "pack_dssp_dict_into_ss_list [sheet_chain] hairpin_dssp hairpin_key_map
     = Inr (hairpin_ss_list, [hairpin_sheet])"
  by (simp add: pack_dssp_dict_into_ss_list_def hairpin_segments hairpin_sheets_built
      del: pack_chains.simps)

theorem sheet_hbond_edge_iff_witness:
  "init_sheet_graph [strand_a, strand_b] hairpin_dssp hairpin_key_map [sheet_chain]
     = Inr hairpin_graph \<and>
   sheet_res 4 \<in> set (strand_residues [strand_a, strand_b]) \<and>
   hairpin_dssp (chain_id (get_parent (sheet_res 4)), resseq (sheet_res 4))
     = Some (strand_entry 5 1 (- 4, - 1.51) (0, 0)) \<and>
   (''nh_to_o1'', (- 4, - 1.51)) \<in> set (hb_kinds (strand_entry 5 1 (- 4, - 1.51) (0, 0))) \<and>
   ((sheet_res 4, sheet_res 0, ''nh_to_o1'') \<in> set (edges hairpin_graph) \<longleftrightarrow>
      snd (- 4 :: int, - 1.51 :: real) < - 1.5 \<and>
      resolve_partner hairpin_key_map [sheet_chain]
        (seq_num (strand_entry 5 1 (- 4, - 1.51) (0, 0)) + fst (- 4 :: int, - 1.51 :: real))
        = Inr (sheet_res 0) \<and>
      sheet_res 0 \<in> set (strand_residues [strand_a, strand_b]))"
proof -
  have 1: "init_sheet_graph [strand_a, strand_b] hairpin_dssp hairpin_key_map [sheet_chain]
      = Inr hairpin_graph"
    by (rule hairpin_graph_built)
  have 2: "sheet_res 4 \<in> set (strand_residues [strand_a, strand_b])"
    by (simp add: strand_residues_def strand_a_def strand_b_def)
  have 3: "hairpin_dssp (chain_id (get_parent (sheet_res 4)), resseq (sheet_res 4))
      = Some (strand_entry 5 1 (- 4, - 1.51) (0, 0))"
    by (simp add: sheet_defs resseq_def get_id_def)
  have 4: "(''nh_to_o1'', (- 4, - 1.51)) \<in> set (hb_kinds (strand_entry 5 1 (- 4, - 1.51) (0, 0)))"
    by (simp add: hb_kinds_def strand_entry_def)
  show ?thesis
    using 1 2 3 4 sheet_hbond_edge_iff [OF 1 2 3 4, of "sheet_res 0"] by blast
qed

text \<open>
  In the hairpin, the bond of energy -1.51 is an edge, and the bond of energy exactly
  -1.5 is none although its partner is in the sheet.
\<close>

lemma hairpin_energy_limit:
  "(sheet_res 4, sheet_res 0, ''nh_to_o1'') \<in> set (edges hairpin_graph) \<and>
   snd (o_to_nh1 (strand_entry 1 5 (4, - 2) (4, - 1.5))) = - 1.5 \<and>
   resolve_partner hairpin_key_map [sheet_chain] (1 + 4) = Inr (sheet_res 4) \<and>
   (sheet_res 0, sheet_res 4, ''o_to_nh1'') \<notin> set (edges hairpin_graph)"
  by (simp add: hairpin_graph_def strand_entry_def resolve_partner_def dict_getitem_def
      model_getitem_def chain_getitem_def hairpin_key_map_def sheet_chain_def sheet_res_def
      residues_of_def backbone_res_def)



section \<open>Properties of the residue frame\<close>

lemma vec3_cases: obtains x y z where "(v::vec3) = (x, y, z)"
  by (cases v) auto

lemma dot_cross_left: "dot a (cross a b) = 0"
  by (rule vec3_cases [of a], rule vec3_cases [of b]) (simp add: dot_def cross_def algebra_simps)

lemma dot_cross_right: "dot b (cross a b) = 0"
  by (rule vec3_cases [of a], rule vec3_cases [of b]) (simp add: dot_def cross_def algebra_simps)

lemma dot_commute: "dot a b = dot b a"
  by (rule vec3_cases [of a], rule vec3_cases [of b]) (simp add: dot_def algebra_simps)

lemma cross_norm_sq: "dot (cross a b) (cross a b) = dot a a * dot b b - (dot a b)\<^sup>2"
  by (rule vec3_cases [of a], rule vec3_cases [of b])
    (simp add: dot_def cross_def algebra_simps power2_eq_square)

lemma sum_squares3_zero:
  fixes x y z :: real
  assumes "x * x + y * y + z * z = 0"
  shows "x = 0 \<and> y = 0 \<and> z = 0"
proof -
  have "0 \<le> x * x" "0 \<le> y * y" "0 \<le> z * z" by simp_all
  with assms have "x * x = 0" "y * y = 0" "z * z = 0" by linarith+
  then show ?thesis by simp
qed

lemma dot_zero_iff: "dot v v = 0 \<longleftrightarrow> v = (0, 0, 0)"
proof (rule vec3_cases [of v])
  fix x y z assume v: "v = (x, y, z)"
  show ?thesis
  proof
    assume "dot v v = 0"
    then have "x * x + y * y + z * z = 0" by (simp add: v dot_def)
    then show "v = (0, 0, 0)" using sum_squares3_zero v by blast
  next
    assume "v = (0, 0, 0)"
    then show "dot v v = 0" by (simp add: dot_def)
  qed
qed

lemma dot_nonneg: "0 \<le> dot v v"
  by (rule vec3_cases [of v]) (simp add: dot_def)

lemma norm_pos: "v \<noteq> (0, 0, 0) \<Longrightarrow> 0 < linalg_norm v"
  using dot_zero_iff [of v] dot_nonneg [of v] by (simp add: linalg_norm_def less_le)

lemma dot_vdiv: "dot (vdiv a s) (vdiv b t) = dot a b / (s * t)"
  by (rule vec3_cases [of a], rule vec3_cases [of b]) (simp add: dot_def vdiv_def add_divide_distrib)

lemma dot_vdiv_right: "dot a (vdiv b t) = dot a b / t"
  by (rule vec3_cases [of a], rule vec3_cases [of b]) (simp add: dot_def vdiv_def add_divide_distrib)

lemma cross_vdiv_left: "cross (vdiv a s) b = vdiv (cross a b) s"
  by (rule vec3_cases [of a], rule vec3_cases [of b]) (simp add: cross_def vdiv_def diff_divide_distrib)

lemma vdiv_zero_iff: "s \<noteq> 0 \<Longrightarrow> vdiv v s = (0, 0, 0) \<longleftrightarrow> v = (0, 0, 0)"
  by (rule vec3_cases [of v]) (simp add: vdiv_def)

lemma normalize_unit:
  assumes "v \<noteq> (0, 0, 0)"
  shows "dot (normalize v) (normalize v) = 1"
proof -
  have p: "0 < linalg_norm v" using assms by (rule norm_pos)
  have "linalg_norm v * linalg_norm v = dot v v"
    using dot_nonneg [of v] by (simp add: linalg_norm_def)
  then show ?thesis using p assms by (simp add: normalize_def Let_def dot_vdiv dot_zero_iff)
qed

lemma normalize_eq: "v \<noteq> (0, 0, 0) \<Longrightarrow> normalize v = vdiv v (linalg_norm v)"
  using norm_pos [of v] by (simp add: normalize_def Let_def)

lemma vsub_zero_iff: "vsub a b = (0, 0, 0) \<longleftrightarrow> a = b"
  by (rule vec3_cases [of a], rule vec3_cases [of b]) (simp add: vsub_def)

lemma cross_cross_unit:
  assumes "dot a a = 1" and "dot a b = 0"
  shows "cross a (cross b a) = b"
proof (rule vec3_cases [of a], rule vec3_cases [of b])
  fix a0 a1 a2 b0 b1 b2
  assume a: "a = (a0, a1, a2)" and b: "b = (b0, b1, b2)"
  have 1: "a0 * a0 + a1 * a1 + a2 * a2 = 1" using assms(1) by (simp add: a dot_def)
  have 2: "a0 * b0 + a1 * b1 + a2 * b2 = 0" using assms(2) by (simp add: a b dot_def)
  have "cross a (cross b a) =
      ((a0 * a0 + a1 * a1 + a2 * a2) * b0 - (a0 * b0 + a1 * b1 + a2 * b2) * a0,
       (a0 * a0 + a1 * a1 + a2 * a2) * b1 - (a0 * b0 + a1 * b1 + a2 * b2) * a1,
       (a0 * a0 + a1 * a1 + a2 * a2) * b2 - (a0 * b0 + a1 * b1 + a2 * b2) * a2)"
    by (simp add: a b cross_def algebra_simps)
  then show ?thesis by (simp add: 1 2 b)
qed

lemma transpose3_cols:
  "col0 (transpose3 (x, y, z)) = x" "col1 (transpose3 (x, y, z)) = y"
  "col2 (transpose3 (x, y, z)) = z"
  by (rule vec3_cases [of x], rule vec3_cases [of y], rule vec3_cases [of z],
      simp add: transpose3_def col0_def col1_def col2_def row0_def row1_def row2_def
        c0_def c1_def c2_def)+

lemma frame_orthonormal:
  assumes v: "v \<noteq> (0, 0, 0)" and w: "cross v u \<noteq> (0, 0, 0)"
  defines "x \<equiv> normalize v"
  defines "z \<equiv> normalize (cross x u)"
  defines "y \<equiv> cross z x"
  shows "dot x x = 1 \<and> dot y y = 1 \<and> dot z z = 1 \<and> dot x y = 0 \<and> dot x z = 0 \<and>
         dot y z = 0 \<and> cross x y = z"
proof -
  have np: "0 < linalg_norm v" using v by (rule norm_pos)
  have xe: "x = vdiv v (linalg_norm v)" unfolding x_def using v by (rule normalize_eq)
  have cw: "cross x u = vdiv (cross v u) (linalg_norm v)" by (simp add: xe cross_vdiv_left)
  have wn: "cross x u \<noteq> (0, 0, 0)" using w np by (simp add: cw vdiv_zero_iff)
  have wp: "0 < linalg_norm (cross x u)" using wn by (rule norm_pos)
  have ze: "z = vdiv (cross x u) (linalg_norm (cross x u))"
    unfolding z_def using wn by (rule normalize_eq)
  have xx: "dot x x = 1" unfolding x_def using v by (rule normalize_unit)
  have zz: "dot z z = 1" unfolding z_def using wn by (rule normalize_unit)
  have xz: "dot x z = 0" by (simp add: ze dot_vdiv_right dot_cross_left)
  have zx: "dot z x = 0" using xz by (simp add: dot_commute)
  have yy: "dot y y = 1" by (simp add: y_def cross_norm_sq xx zz zx)
  have xy: "dot x y = 0" by (simp add: y_def dot_cross_right)
  have yz: "dot y z = 0" using dot_cross_left [of z x] by (simp add: y_def dot_commute)
  have rh: "cross x y = z" unfolding y_def using xx xz by (rule cross_cross_unit)
  show ?thesis using xx yy zz xy xz yz rh by simp
qed

text \<open>
  C4. For a residue with N, CA and C atoms where N differs from CA and the three atoms
  are not on one line (the cross product of N - CA and C - CA is not zero), the matrix
  returned by \<open>get_residue_stub_matrix\<close> has the columns \<open>x = normalize (N - CA)\<close>,
  \<open>z = normalize (x \<times> (C - CA))\<close> and \<open>y = z \<times> x\<close>; they have unit length, are
  pairwise orthogonal and right-handed (\<open>x \<times> y = z\<close>), and the returned origin is the
  CA coordinate. Coordinates are exact reals.
\<close>

theorem residue_stub_frame:
  assumes "atom_coord r ''N'' = Inr n" and "atom_coord r ''CA'' = Inr ca"
    and "atom_coord r ''C'' = Inr c"
    and "n \<noteq> ca" and "cross (vsub n ca) (vsub c ca) \<noteq> (0, 0, 0)"
  shows "\<exists>M x y z. get_residue_stub_matrix r = Inr (M, ca) \<and>
           col0 M = x \<and> col1 M = y \<and> col2 M = z \<and>
           x = normalize (vsub n ca) \<and> z = normalize (cross x (vsub c ca)) \<and> y = cross z x \<and>
           dot x x = 1 \<and> dot y y = 1 \<and> dot z z = 1 \<and>
           dot x y = 0 \<and> dot x z = 0 \<and> dot y z = 0 \<and> cross x y = z"
proof -
  let ?x = "normalize (vsub n ca)"
  let ?z = "normalize (cross ?x (vsub c ca))"
  let ?y = "cross ?z ?x"
  have v: "vsub n ca \<noteq> (0, 0, 0)" using assms(4) by (simp add: vsub_zero_iff)
  have g: "get_residue_stub_matrix r = Inr (transpose3 (?x, ?y, ?z), ca)"
    using assms(1-3) by (simp add: get_residue_stub_matrix_def Let_def)
  note f = frame_orthonormal [OF v assms(5)]
  show ?thesis using g f transpose3_cols [of ?x ?y ?z] by blast
qed

theorem residue_stub_frame_witness:
  "atom_coord (line_residue 0) ''N'' = Inr (0, 1, 0) \<and>
   atom_coord (line_residue 0) ''CA'' = Inr (0, 0, 0) \<and>
   atom_coord (line_residue 0) ''C'' = Inr (0, 0, 1) \<and>
   (0, 1, 0) \<noteq> ((0, 0, 0) :: vec3) \<and>
   cross (vsub (0, 1, 0) (0, 0, 0)) (vsub (0, 0, 1) (0, 0, 0)) \<noteq> (0, 0, 0) \<and>
   (\<exists>M x y z. get_residue_stub_matrix (line_residue 0) = Inr (M, (0, 0, 0)) \<and>
      col0 M = x \<and> col1 M = y \<and> col2 M = z \<and>
      x = normalize (vsub (0, 1, 0) (0, 0, 0)) \<and>
      z = normalize (cross x (vsub (0, 0, 1) (0, 0, 0))) \<and> y = cross z x \<and>
      dot x x = 1 \<and> dot y y = 1 \<and> dot z z = 1 \<and>
      dot x y = 0 \<and> dot x z = 0 \<and> dot y z = 0 \<and> cross x y = z)"
proof -
  have 1: "atom_coord (line_residue 0) ''N'' = Inr (0, 1, 0)"
    and 2: "atom_coord (line_residue 0) ''CA'' = Inr (0, 0, 0)"
    and 3: "atom_coord (line_residue 0) ''C'' = Inr (0, 0, 1)"
    by (simp_all add: atom_coord_def line_residue_def residues_of_def line_chain_def
        backbone_res_def)
  have 4: "(0, 1, 0) \<noteq> ((0, 0, 0) :: vec3)" by simp
  have 5: "cross (vsub (0, 1, 0) (0, 0, 0)) (vsub (0, 0, 1) (0, 0, 0)) \<noteq> (0, 0, 0)"
    by (simp add: cross_def vsub_def)
  show ?thesis using 1 2 3 4 5 residue_stub_frame [OF 1 2 3 4 5] by blast
qed

section \<open>Properties of the Euler angles\<close>

lemma sqrt_sum_pos:
  fixes x y :: real
  assumes "x \<noteq> 0 \<or> y \<noteq> 0"
  shows "0 < sqrt (x\<^sup>2 + y\<^sup>2)"
proof -
  have "0 < x\<^sup>2 + y\<^sup>2" using assms by (metis sum_power2_gt_zero_iff)
  then show ?thesis by simp
qed

lemma cos_sin_arctan_div:
  fixes x y :: real
  assumes "x \<noteq> 0"
  shows "cos (arctan (y / x)) = \<bar>x\<bar> / sqrt (x\<^sup>2 + y\<^sup>2)"
    and "sin (arctan (y / x)) = (y / x) * \<bar>x\<bar> / sqrt (x\<^sup>2 + y\<^sup>2)"
proof -
  have "1 + (y / x)\<^sup>2 = (x\<^sup>2 + y\<^sup>2) / x\<^sup>2"
    using assms by (simp add: power_divide add_divide_distrib)
  then have s: "sqrt (1 + (y / x)\<^sup>2) = sqrt (x\<^sup>2 + y\<^sup>2) / \<bar>x\<bar>"
    by (simp add: real_sqrt_divide)
  show "cos (arctan (y / x)) = \<bar>x\<bar> / sqrt (x\<^sup>2 + y\<^sup>2)"
    by (simp add: cos_arctan s)
  show "sin (arctan (y / x)) = (y / x) * \<bar>x\<bar> / sqrt (x\<^sup>2 + y\<^sup>2)"
    by (simp add: sin_arctan s)
qed

lemma cos_sin_arctan2:
  fixes x y :: real
  assumes "x \<noteq> 0 \<or> y \<noteq> 0"
  shows "cos (arctan2 y x) = x / sqrt (x\<^sup>2 + y\<^sup>2) \<and> sin (arctan2 y x) = y / sqrt (x\<^sup>2 + y\<^sup>2)"
proof -
  consider "0 < x" | "x < 0" "0 \<le> y" | "x < 0" "y < 0" | "x = 0" "0 < y" | "x = 0" "y < 0"
    using assms by linarith
  then show ?thesis
  proof cases
    case 1
    then show ?thesis using cos_sin_arctan_div [of x y] by (simp add: arctan2_def)
  next
    case 2
    then show ?thesis using cos_sin_arctan_div [of x y] by (simp add: arctan2_def)
  next
    case 3
    then show ?thesis using cos_sin_arctan_div [of x y] by (simp add: arctan2_def)
  next
    case 4
    then show ?thesis by (simp add: arctan2_def)
  next
    case 5
    then show ?thesis by (simp add: arctan2_def)
  qed
qed

lemma euler_matrix:
  "euler_angles_to_rotation_matrix tx ty tz =
     ((cos tz * cos ty, cos tz * sin ty * sin tx - sin tz * cos tx,
       cos tz * sin ty * cos tx + sin tz * sin tx),
      (sin tz * cos ty, sin tz * sin ty * sin tx + cos tz * cos tx,
       sin tz * sin ty * cos tx - cos tz * sin tx),
      (- sin ty, cos ty * sin tx, cos ty * cos tx))"
  by (simp add: euler_angles_to_rotation_matrix_def Let_def matmul_def dot_def row0_def row1_def
      row2_def col0_def col1_def col2_def c0_def c1_def c2_def algebra_simps)

lemma diff_sq3:
  fixes a0 a1 a2 w0 w1 w2 :: real
  shows "(a0 - w0) * (a0 - w0) + (a1 - w1) * (a1 - w1) + (a2 - w2) * (a2 - w2)
     = (a0 * a0 + a1 * a1 + a2 * a2) - 2 * (a0 * w0 + a1 * w1 + a2 * w2)
       + (w0 * w0 + w1 * w1 + w2 * w2)"
  by algebra

lemma det_cyclic:
  fixes a0 a1 a2 b0 b1 b2 d0 d1 d2 :: real
  shows "b0 * (d1 * a2 - d2 * a1) + b1 * (d2 * a0 - d0 * a2) + b2 * (d0 * a1 - d1 * a0)
      = a0 * (b1 * d2 - b2 * d1) + a1 * (b2 * d0 - b0 * d2) + a2 * (b0 * d1 - b1 * d0)"
  by algebra

lemma dot_cross_cyclic: "dot b (cross c a) = dot a (cross b c)"
  by (rule vec3_cases [of a], rule vec3_cases [of b], rule vec3_cases [of c])
    (simp add: dot_def cross_def det_cyclic)

lemma unit_vectors_equal:
  assumes "dot a a = 1" and "dot w w = 1" and "dot a w = 1"
  shows "a = w"
proof (rule vec3_cases [of a], rule vec3_cases [of w])
  fix a0 a1 a2 w0 w1 w2
  assume a: "a = (a0, a1, a2)" and w: "w = (w0, w1, w2)"
  have "(a0 - w0) * (a0 - w0) + (a1 - w1) * (a1 - w1) + (a2 - w2) * (a2 - w2) = 0"
    using assms unfolding diff_sq3 by (simp add: a w dot_def)
  then have "a0 - w0 = 0 \<and> a1 - w1 = 0 \<and> a2 - w2 = 0" by (rule sum_squares3_zero)
  then show ?thesis by (simp add: a w)
qed

lemma rotation_rows:
  assumes "is_rotation R"
  shows "row0 R = cross (row1 R) (row2 R)" and "row1 R = cross (row2 R) (row0 R)"
proof -
  let ?a = "row0 R" and ?b = "row1 R" and ?c = "row2 R"
  have aa: "dot ?a ?a = 1" and bb: "dot ?b ?b = 1" and cc: "dot ?c ?c = 1"
    and ac: "dot ?a ?c = 0" and bc: "dot ?b ?c = 0" and det: "dot ?a (cross ?b ?c) = 1"
    using assms by (simp_all add: is_rotation_def det3_def)
  have ca: "dot ?c ?a = 0" using ac by (simp add: dot_commute)
  have "dot (cross ?b ?c) (cross ?b ?c) = 1" by (simp add: cross_norm_sq bb cc bc)
  then show "?a = cross ?b ?c" using aa det by (intro unit_vectors_equal)
  have "dot (cross ?c ?a) (cross ?c ?a) = 1" by (simp add: cross_norm_sq aa cc ca)
  moreover have "dot ?b (cross ?c ?a) = 1" using det by (simp add: dot_cross_cyclic)
  ultimately show "?b = cross ?c ?a" using bb by (intro unit_vectors_equal)
qed

lemma mat3_cases:
  obtains r00 r01 r02 r10 r11 r12 r20 r21 r22
  where "(R::mat3) = ((r00, r01, r02), (r10, r11, r12), (r20, r21, r22))"
  by (cases R) auto

lemma rotation_polynomials:
  fixes r00 r01 r02 r10 r11 r12 r20 r21 r22 s :: real
  assumes ss: "s * s = r21 * r21 + r22 * r22"
    and bb: "r10 * r10 + r11 * r11 + r12 * r12 = 1"
    and cc: "r20 * r20 + r21 * r21 + r22 * r22 = 1"
    and ac: "r00 * r20 + r01 * r21 + r02 * r22 = 0"
    and bc: "r10 * r20 + r11 * r21 + r12 * r22 = 0"
    and r00: "r00 = r11 * r22 - r12 * r21"
    and r10: "r10 = r21 * r02 - r22 * r01"
  shows "r01 * (s * s) = - (r00 * r20 * r21) - r10 * r22"
    and "r02 * (s * s) = r10 * r21 - r00 * r20 * r22"
    and "r11 * (s * s) = r00 * r22 - r10 * r20 * r21"
    and "r12 * (s * s) = - (r10 * r20 * r22) - r00 * r21"
    and "r00 * r00 + r10 * r10 = s * s"
proof -
  have "r01 * (s * s) + r00 * r20 * r21 + r10 * r22 = r21 * (r00 * r20 + r01 * r21 + r02 * r22)"
    unfolding ss r10 by algebra
  then show "r01 * (s * s) = - (r00 * r20 * r21) - r10 * r22" using ac by simp
  have "r02 * (s * s) + r00 * r20 * r22 - r10 * r21 = r22 * (r00 * r20 + r01 * r21 + r02 * r22)"
    unfolding ss r10 by algebra
  then show "r02 * (s * s) = r10 * r21 - r00 * r20 * r22" using ac by simp
  have "r11 * (s * s) + r10 * r20 * r21 - r00 * r22 = r21 * (r10 * r20 + r11 * r21 + r12 * r22)"
    unfolding ss r00 by algebra
  then show "r11 * (s * s) = r00 * r22 - r10 * r20 * r21" using bc by simp
  have "r12 * (s * s) + r10 * r20 * r22 + r00 * r21 = r22 * (r10 * r20 + r11 * r21 + r12 * r22)"
    unfolding ss r00 by algebra
  then show "r12 * (s * s) = - (r10 * r20 * r22) - r00 * r21" using bc by simp
  have "(r11 * r22 - r12 * r21) * (r11 * r22 - r12 * r21)
      = (r11 * r11 + r12 * r12) * (r21 * r21 + r22 * r22) - (r11 * r21 + r12 * r22) * (r11 * r21 + r12 * r22)"
    by algebra
  also have "r11 * r11 + r12 * r12 = 1 - r10 * r10" using bb by simp
  also have "r21 * r21 + r22 * r22 = 1 - r20 * r20" using cc by simp
  also have "r11 * r21 + r12 * r22 = - (r10 * r20)" using bc by simp
  finally have "r00 * r00 = 1 - r10 * r10 - r20 * r20" unfolding r00 [symmetric] by (simp add: algebra_simps)
  then show "r00 * r00 + r10 * r10 = s * s" using ss cc by simp
qed

lemma quotient_eq:
  fixes a n d :: real
  assumes "a * d = n" and "d \<noteq> 0"
  shows "n / d = a"
  using assms by (simp add: field_simps)

text \<open>
  C3. For every rotation matrix \<open>R\<close> (orthonormal rows, determinant 1) in which
  \<open>R[2][1]\<close> and \<open>R[2][2]\<close> are not both zero,
  \<open>euler_angles_to_rotation_matrix\<close>, the product \<open>Z \<cdot> (Y \<cdot> X)\<close>, applied to the
  three angles of \<open>rotation_matrix_to_euler_angles R\<close> returns \<open>R\<close>. The entries are
  exact reals, so the result is \<open>R\<close> itself.
\<close>

theorem euler_round_trip:
  assumes rot: "is_rotation R"
    and ng: "c1 (row2 R) \<noteq> 0 \<or> c2 (row2 R) \<noteq> 0"
  shows "(case rotation_matrix_to_euler_angles R of
            (tx, ty, tz) \<Rightarrow> euler_angles_to_rotation_matrix tx ty tz) = R"
proof (rule mat3_cases [of R])
  fix r00 r01 r02 r10 r11 r12 r20 r21 r22
  assume R: "R = ((r00, r01, r02), (r10, r11, r12), (r20, r21, r22))"
  define s where "s = sqrt (r21\<^sup>2 + r22\<^sup>2)"
  have rows: "row0 R = (r00, r01, r02)" "row1 R = (r10, r11, r12)" "row2 R = (r20, r21, r22)"
    by (simp_all add: R row0_def row1_def row2_def)
  have bb: "r10 * r10 + r11 * r11 + r12 * r12 = 1"
    and cc: "r20 * r20 + r21 * r21 + r22 * r22 = 1"
    and ac: "r00 * r20 + r01 * r21 + r02 * r22 = 0"
    and bc: "r10 * r20 + r11 * r21 + r12 * r22 = 0"
    using rot by (simp_all add: is_rotation_def rows dot_def)
  have e00: "r00 = r11 * r22 - r12 * r21"
    using rotation_rows(1) [OF rot] by (simp add: rows cross_def)
  have e10: "r10 = r21 * r02 - r22 * r01"
    using rotation_rows(2) [OF rot] by (simp add: rows cross_def)
  have ng': "r22 \<noteq> 0 \<or> r21 \<noteq> 0" using ng by (auto simp: rows c1_def c2_def)
  have sp: "0 < s" unfolding s_def using ng' sqrt_sum_pos [of r21 r22] by auto
  have s0: "s \<noteq> 0" using sp by simp
  have ss: "s * s = r21 * r21 + r22 * r22"
    unfolding s_def by (simp add: power2_eq_square [symmetric])
  note p = rotation_polynomials [OF ss bb cc ac bc e00 e10]
  have sx: "sqrt (r22\<^sup>2 + r21\<^sup>2) = s" by (simp add: s_def add.commute)
  have "s\<^sup>2 + r20\<^sup>2 = 1" using ss cc by (simp add: power2_eq_square)
  then have sy: "sqrt (s\<^sup>2 + r20\<^sup>2) = 1" by simp
  have "r00\<^sup>2 + r10\<^sup>2 = s\<^sup>2" using p(5) by (simp add: power2_eq_square)
  then have sz: "sqrt (r00\<^sup>2 + r10\<^sup>2) = s" using sp by simp
  have nz: "r00 \<noteq> 0 \<or> r10 \<noteq> 0"
  proof (rule ccontr)
    assume "\<not> (r00 \<noteq> 0 \<or> r10 \<noteq> 0)"
    then have "s * s = 0" using p(5) by simp
    then show False using s0 by simp
  qed
  define tx where "tx = arctan2 r21 r22"
  define ty where "ty = arctan2 (- r20) s"
  define tz where "tz = arctan2 r10 r00"
  have cx: "cos tx = r22 / s" and snx: "sin tx = r21 / s"
    using cos_sin_arctan2 [OF ng'] by (simp_all add: tx_def sx)
  have cy: "cos ty = s" and sny: "sin ty = - r20"
    using cos_sin_arctan2 [of s "- r20"] s0 by (simp_all add: ty_def sy)
  have cz: "cos tz = r00 / s" and snz: "sin tz = r10 / s"
    using cos_sin_arctan2 [OF nz] by (simp_all add: tz_def sz)
  have angles: "rotation_matrix_to_euler_angles R = (tx, ty, tz)"
    by (simp add: rotation_matrix_to_euler_angles_def Let_def rows c0_def c1_def c2_def
        tx_def ty_def tz_def s_def)
  have m00: "cos tz * cos ty = r00" using s0 by (simp add: cz cy)
  have m10: "sin tz * cos ty = r10" using s0 by (simp add: snz cy)
  have m20: "- sin ty = r20" by (simp add: sny)
  have m21: "cos ty * sin tx = r21" using s0 by (simp add: cy snx)
  have m22: "cos ty * cos tx = r22" using s0 by (simp add: cy cx)
  have "cos tz * sin ty * sin tx - sin tz * cos tx = (- (r00 * r20 * r21) - r10 * r22) / (s * s)"
    using s0 by (simp add: cz sny snx snz cx field_simps)
  then have m01: "cos tz * sin ty * sin tx - sin tz * cos tx = r01"
    using quotient_eq [OF p(1)] s0 by simp
  have "cos tz * sin ty * cos tx + sin tz * sin tx = (r10 * r21 - r00 * r20 * r22) / (s * s)"
    using s0 by (simp add: cz sny snx snz cx field_simps)
  then have m02: "cos tz * sin ty * cos tx + sin tz * sin tx = r02"
    using quotient_eq [OF p(2)] s0 by simp
  have "sin tz * sin ty * sin tx + cos tz * cos tx = (r00 * r22 - r10 * r20 * r21) / (s * s)"
    using s0 by (simp add: cz sny snx snz cx field_simps)
  then have m11: "sin tz * sin ty * sin tx + cos tz * cos tx = r11"
    using quotient_eq [OF p(3)] s0 by simp
  have "sin tz * sin ty * cos tx - cos tz * sin tx = (- (r10 * r20 * r22) - r00 * r21) / (s * s)"
    using s0 by (simp add: cz sny snx snz cx field_simps)
  then have m12: "sin tz * sin ty * cos tx - cos tz * sin tx = r12"
    using quotient_eq [OF p(4)] s0 by simp
  show ?thesis
    unfolding angles by (simp add: euler_matrix R m00 m10 m20 m21 m22 m01 m02 m11 m12)
qed

theorem euler_round_trip_witness:
  "is_rotation quarter_turn \<and> c2 (row2 quarter_turn) \<noteq> 0 \<and>
   (case rotation_matrix_to_euler_angles quarter_turn of
      (tx, ty, tz) \<Rightarrow> euler_angles_to_rotation_matrix tx ty tz) = quarter_turn"
proof -
  have 1: "is_rotation quarter_turn"
    by (simp add: is_rotation_def quarter_turn_def det3_def dot_def cross_def row0_def row1_def
        row2_def)
  have 2: "c2 (row2 quarter_turn) \<noteq> 0"
    by (simp add: quarter_turn_def c2_def row2_def)
  then have 3: "c1 (row2 quarter_turn) \<noteq> 0 \<or> c2 (row2 quarter_turn) \<noteq> 0" by simp
  show ?thesis using 1 2 euler_round_trip [OF 1 3] by blast
qed

end
